theory Spec2Isabelle
  imports Complex_Main "HOL-Library.Word"
begin

section \<open>JavaScript values and built-ins that script.js relies on\<close>

text \<open>
  Exceptions are values. \<open>Error m\<close> is \<open>new Error(m)\<close>; the other three are the
  built-in classes the program can run into (a property read on \<open>null\<close> or
  \<open>undefined\<close>, an argument check of the crypto module, an undeclared identifier).
\<close>

datatype error = Error string | TypeError | RangeError | ReferenceError

fun message :: "error \<Rightarrow> string" where
  "message (Error m) = m"
| "message _ = []"

text \<open>
  A JavaScript number. Finite values are kept exact (a rational): IEEE rounding of very
  long literals and the sign of zero are not modelled. Faces of dice are such numbers.
\<close>

datatype jsnum = NaN | NegInf | Fin rat | PosInf

fun isNaN :: "jsnum \<Rightarrow> bool" where
  "isNaN NaN = True"
| "isNaN _ = False"

text \<open>The relational operator \<open>a > b\<close> on numbers: false as soon as one side is NaN.\<close>

fun js_gt :: "jsnum \<Rightarrow> jsnum \<Rightarrow> bool" where
  "js_gt NaN b = False"
| "js_gt a NaN = False"
| "js_gt PosInf b = (b \<noteq> PosInf)"
| "js_gt (Fin x) (Fin y) = (y < x)"
| "js_gt (Fin x) NegInf = True"
| "js_gt (Fin x) PosInf = False"
| "js_gt NegInf b = False"

definition js_lt :: "jsnum \<Rightarrow> jsnum \<Rightarrow> bool" where
  "js_lt a b = js_gt b a"

text \<open>\<open>n / d\<close> for two non-negative integers, as JavaScript divides: \<open>0 / 0\<close> is NaN.\<close>

definition js_div :: "nat \<Rightarrow> nat \<Rightarrow> jsnum" where
  "js_div n d = (if d = 0 then (if n = 0 then NaN else PosInf) else Fin (of_nat n / of_nat d))"

text \<open>
  Strings are lists of code units below 256. White space is what \<open>parseInt\<close> and
  \<open>Number\<close> strip: tab, line feed, vertical tab, form feed, carriage return, space and
  the no-break space.
\<close>

definition isWhiteSpace :: "char \<Rightarrow> bool" where
  "isWhiteSpace c = (c \<in> set [CHR 0x09, CHR 0x0A, CHR 0x0B, CHR 0x0C, CHR 0x0D, CHR 0x20, CHR 0xA0])"

definition isDigit :: "char \<Rightarrow> bool" where
  "isDigit c = (c \<in> set ''0123456789'')"

definition digitVal :: "char \<Rightarrow> nat" where
  "digitVal c = of_char c - 48"

definition decimalValue :: "string \<Rightarrow> nat" where
  "decimalValue ds = foldl (\<lambda>a c. 10 * a + digitVal c) 0 ds"

text \<open>
  \<open>parseInt(s, 10)\<close>: leading white space is skipped, one sign is read, then the longest
  run of decimal digits; whatever follows is ignored. No digit at all gives NaN, here
  \<open>None\<close>.
\<close>

definition parseInt10 :: "string \<Rightarrow> int option" where
  "parseInt10 s =
     (let s1 = dropWhile isWhiteSpace s;
          neg = (s1 \<noteq> [] \<and> hd s1 = CHR ''-'');
          s2 = (if s1 \<noteq> [] \<and> (hd s1 = CHR ''-'' \<or> hd s1 = CHR ''+'') then tl s1 else s1);
          z = takeWhile isDigit s2
      in if z = [] then None
         else Some (if neg then - int (decimalValue z) else int (decimalValue z)))"

text \<open>\<open>Number.prototype.toString\<close> on a non-negative integer: its decimal digits.\<close>

function decimalStringOf :: "nat \<Rightarrow> string" where
  "decimalStringOf n =
     (if n < 10 then [''0123456789'' ! n]
      else decimalStringOf (n div 10) @ [''0123456789'' ! (n mod 10)])"
  by pat_completeness auto
termination
  by (relation "measure id") auto

declare decimalStringOf.simps [simp del]

text \<open>\<open>Buffer.prototype.toString("hex")\<close>: two lowercase hexadecimal digits per byte.\<close>

definition hexDigit :: "nat \<Rightarrow> char" where
  "hexDigit d = ''0123456789abcdef'' ! d"

definition hexByte :: "8 word \<Rightarrow> string" where
  "hexByte b = [hexDigit (unat b div 16), hexDigit (unat b mod 16)]"

definition toHex :: "8 word list \<Rightarrow> string" where
  "toHex bs = concat (map hexByte bs)"

text \<open>\<open>String.prototype.split\<close> with a one-character separator: never an empty array.\<close>

fun split_js :: "char \<Rightarrow> string \<Rightarrow> string list" where
  "split_js sep [] = [[]]"
| "split_js sep (c # cs) =
     (if c = sep then [] # split_js sep cs
      else (case split_js sep cs of
              [] \<Rightarrow> [[c]]
            | w # ws \<Rightarrow> (c # w) # ws))"

text \<open>
  \<open>Number(s)\<close> on a string: the string is trimmed; the empty string is \<open>0\<close>; otherwise
  the whole of it has to be one numeric literal (a \<open>0x\<close>, \<open>0o\<close> or \<open>0b\<close> integer
  without sign, or a signed decimal literal with optional fraction and exponent, or a
  signed \<open>Infinity\<close>), and anything else is NaN.
\<close>

definition trim :: "string \<Rightarrow> string" where
  "trim s = rev (dropWhile isWhiteSpace (rev (dropWhile isWhiteSpace s)))"

definition radixDigit :: "nat \<Rightarrow> char \<Rightarrow> nat option" where
  "radixDigit r c =
     (let v = (if c \<in> set ''0123456789'' then of_char c - 48
               else if c \<in> set ''abcdef'' then of_char c - 87
               else if c \<in> set ''ABCDEF'' then of_char c - 55
               else 36)
      in if v < r then Some v else None)"

fun radixValue :: "nat \<Rightarrow> string \<Rightarrow> nat \<Rightarrow> nat option" where
  "radixValue r [] acc = Some acc"
| "radixValue r (c # cs) acc =
     (case radixDigit r c of
        None \<Rightarrow> None
      | Some v \<Rightarrow> radixValue r cs (r * acc + v))"

definition nonDecimalLiteral :: "string \<Rightarrow> nat option" where
  "nonDecimalLiteral s =
     (case s of
        c0 # p # ds \<Rightarrow>
          if c0 = CHR ''0'' \<and> ds \<noteq> [] then
            (if p = CHR ''x'' \<or> p = CHR ''X'' then radixValue 16 ds 0
             else if p = CHR ''o'' \<or> p = CHR ''O'' then radixValue 8 ds 0
             else if p = CHR ''b'' \<or> p = CHR ''B'' then radixValue 2 ds 0
             else None)
          else None
      | _ \<Rightarrow> None)"

definition exponentPart :: "string \<Rightarrow> int option" where
  "exponentPart r =
     (case r of
        [] \<Rightarrow> Some 0
      | e # r1 \<Rightarrow>
          if e = CHR ''e'' \<or> e = CHR ''E'' then
            (let neg = (r1 \<noteq> [] \<and> hd r1 = CHR ''-'');
                 r2 = (if r1 \<noteq> [] \<and> (hd r1 = CHR ''-'' \<or> hd r1 = CHR ''+'') then tl r1 else r1)
             in if r2 \<noteq> [] \<and> list_all isDigit r2
                then Some (if neg then - int (decimalValue r2) else int (decimalValue r2))
                else None)
          else None)"

definition pow10 :: "int \<Rightarrow> rat" where
  "pow10 k = (if 0 \<le> k then 10 ^ nat k else 1 / 10 ^ nat (- k))"

definition strDecimalLiteral :: "string \<Rightarrow> jsnum option" where
  "strDecimalLiteral s =
     (let neg = (s \<noteq> [] \<and> hd s = CHR ''-'');
          u = (if s \<noteq> [] \<and> (hd s = CHR ''-'' \<or> hd s = CHR ''+'') then tl s else s)
      in if u = ''Infinity'' then Some (if neg then NegInf else PosInf)
         else
           (let ip = takeWhile isDigit u;
                r1 = dropWhile isDigit u;
                fp = (if r1 \<noteq> [] \<and> hd r1 = CHR ''.'' then takeWhile isDigit (tl r1) else []);
                r2 = (if r1 \<noteq> [] \<and> hd r1 = CHR ''.'' then dropWhile isDigit (tl r1) else r1)
            in if ip = [] \<and> fp = [] then None
               else (case exponentPart r2 of
                       None \<Rightarrow> None
                     | Some ex \<Rightarrow>
                         (let m = of_nat (decimalValue (ip @ fp)) / 10 ^ length fp * pow10 ex
                          in Some (Fin (if neg then - m else m))))))"

definition Number_js :: "string \<Rightarrow> jsnum" where
  "Number_js s =
     (let t = trim s
      in if t = [] then Fin 0
         else (case nonDecimalLiteral t of
                 Some v \<Rightarrow> Fin (of_nat v)
               | None \<Rightarrow> (case strDecimalLiteral t of Some x \<Rightarrow> x | None \<Rightarrow> NaN)))"

section \<open>The runtime: randomness and the keyed hash\<close>

text \<open>
  The crypto module is outside the program, so it is a parameter. The model counts the
  calls made to the random source (a tick), and the runtime says what each call returns:
  \<^item> \<open>randomBytes rt t n\<close> is \<open>crypto.randomBytes(n)\<close> at call number \<open>t\<close>;
  \<^item> \<open>randomInt rt t lo hi\<close> is \<open>crypto.randomInt(lo, hi)\<close> at call number \<open>t\<close>, which
    may throw;
  \<^item> \<open>createHmac rt alg key msg\<close> is
    \<open>crypto.createHmac(alg, key).update(msg).digest("hex")\<close>.
\<close>

record runtime =
  randomBytes :: "nat \<Rightarrow> nat \<Rightarrow> 8 word list"
  randomInt :: "nat \<Rightarrow> nat \<Rightarrow> nat \<Rightarrow> error + nat"
  createHmac :: "string \<Rightarrow> 8 word list \<Rightarrow> string \<Rightarrow> string"

section \<open>class Dice, class DiceParser\<close>

record Dice =
  faces :: "jsnum list"

text \<open>
  \<open>args.map((arg, index) => ...)\<close> with a callback that may throw: the first exception
  ends the mapping.
\<close>

fun mapThrows :: "(nat \<Rightarrow> 'a \<Rightarrow> error + 'b) \<Rightarrow> nat \<Rightarrow> 'a list \<Rightarrow> error + 'b list" where
  "mapThrows f index [] = Inr []"
| "mapThrows f index (x # xs) =
     (case f index x of
        Inl e \<Rightarrow> Inl e
      | Inr y \<Rightarrow> (case mapThrows f (Suc index) xs of
                    Inl e \<Rightarrow> Inl e
                  | Inr ys \<Rightarrow> Inr (y # ys)))"

definition parseArg :: "nat \<Rightarrow> string \<Rightarrow> error + Dice" where
  "parseArg index arg =
     (let fs = map Number_js (split_js CHR '','' arg)
      in if list_ex isNaN fs
         then Inl (Error (''Invalid dice configuration at argument ''
                          @ decimalStringOf (index + 1) @ '': Only integers are allowed.''))
         else Inr \<lparr>faces = fs\<rparr>)"

definition parseDice :: "string list \<Rightarrow> error + Dice list" where
  "parseDice args =
     (if length args < 3
      then Inl (Error (''You must provide at least three dice configurations. ''
                       @ ''Example: 2,2,4,4,9,9 6,8,1,1,8,6 7,5,3,7,5,3''))
      else mapThrows parseArg 0 args)"

section \<open>class FairRandomGenerator\<close>

text \<open>\<open>secretKey\<close> is \<open>null\<close> (here \<open>None\<close>) until \<open>generateRandom\<close> has run once.\<close>

record FairRandomGenerator =
  secretKey :: "8 word list option"

definition newFairRandomGenerator :: FairRandomGenerator where
  "newFairRandomGenerator = \<lparr>secretKey = None\<rparr>"

text \<open>The object \<open>{ randomNumber, hmac }\<close> that \<open>generateRandom\<close> returns.\<close>

record commitment =
  randomNumber :: nat
  hmac :: string

text \<open>
  \<open>do { num = crypto.randomInt(0, max); } while (num >= max); return num;\<close>
  The result is the draw and the tick after it; \<open>None\<close> is a loop that never ends.
\<close>

partial_function (option) generateUniformRandom ::
  "runtime \<Rightarrow> nat \<Rightarrow> nat \<Rightarrow> (error + nat \<times> nat) option" where
  "generateUniformRandom rt maxv t =
     (case randomInt rt t 0 maxv of
        Inl e \<Rightarrow> Some (Inl e)
      | Inr num \<Rightarrow>
          if num \<ge> maxv then generateUniformRandom rt maxv (Suc t)
          else Some (Inr (num, Suc t)))"

declare generateUniformRandom.simps [code]

text \<open>\<open>crypto.createHmac\<close> throws a TypeError when the key is \<open>null\<close>.\<close>

definition generateHMAC :: "runtime \<Rightarrow> FairRandomGenerator \<Rightarrow> nat \<Rightarrow> error + string" where
  "generateHMAC rt g msg =
     (case secretKey g of
        None \<Rightarrow> Inl TypeError
      | Some k \<Rightarrow> Inr (createHmac rt ''sha3-256'' k (decimalStringOf msg)))"

definition generateRandom ::
  "runtime \<Rightarrow> FairRandomGenerator \<Rightarrow> nat \<Rightarrow> nat
     \<Rightarrow> (error + commitment \<times> FairRandomGenerator \<times> nat) option" where
  "generateRandom rt g maxv t =
     (let g1 = g\<lparr>secretKey := Some (randomBytes rt t 32)\<rparr>
      in case generateUniformRandom rt maxv (Suc t) of
           None \<Rightarrow> None
         | Some (Inl e) \<Rightarrow> Some (Inl e)
         | Some (Inr (num, t1)) \<Rightarrow>
             (case generateHMAC rt g1 num of
                Inl e \<Rightarrow> Some (Inl e)
              | Inr h \<Rightarrow> Some (Inr (\<lparr>randomNumber = num, hmac = h\<rparr>, g1, t1))))"

text \<open>\<open>this.secretKey.toString("hex")\<close>: a property read on \<open>null\<close> is a TypeError.\<close>

definition getSecretKey :: "FairRandomGenerator \<Rightarrow> error + string" where
  "getSecretKey g =
     (case secretKey g of
        None \<Rightarrow> Inl TypeError
      | Some k \<Rightarrow> Inr (toHex k))"

section \<open>class ProbabilityCalculator\<close>

definition calculateProbability :: "Dice \<Rightarrow> Dice \<Rightarrow> jsnum" where
  "calculateProbability dice1 dice2 =
     (let wins = fold (\<lambda>face1. fold (\<lambda>face2 w. if js_gt face1 face2 then w + 1 else w)
                                     (faces dice2))
                      (faces dice1) (0::nat)
      in js_div wins (length (faces dice1) * length (faces dice2)))"

definition calculate :: "Dice list \<Rightarrow> jsnum list list" where
  "calculate ds =
     map (\<lambda>i. map (\<lambda>j. if i = j then Fin (1 / 2)
                        else calculateProbability (ds ! i) (ds ! j))
                  [0..<length ds])
         [0..<length ds]"

section \<open>class ProbabilityTable, console output, prompts\<close>

text \<open>
  The three questions \<open>rl.question\<close> puts: the guess of the first move, the choice of
  a die, and the number to add modulo \<open>n\<close> (asked once for each throw).
\<close>

datatype prompt = GuessPrompt | DicePrompt | ModPrompt nat

text \<open>The text of the two questions that contain no face value.\<close>

definition guessQuery :: string where
  "guessQuery = ''Try to guess my selection.\<newline>0 - 0\<newline>1 - 1\<newline>X - exit\<newline>? - help\<newline>Your selection: ''"

definition join_js :: "string \<Rightarrow> string list \<Rightarrow> string" where
  "join_js sep xs = (case xs of [] \<Rightarrow> [] | y # ys \<Rightarrow> y @ concat (map (\<lambda>z. sep @ z) ys))"

definition modQuery :: "nat \<Rightarrow> string" where
  "modQuery n =
     ''Add your number modulo '' @ decimalStringOf n @ '':\<newline>''
     @ join_js ''\<newline>'' (map (\<lambda>i. decimalStringOf i @ '' - '' @ decimalStringOf i) [0..<n])
     @ ''\<newline>X - exit\<newline>? - help\<newline>Your selection: ''"

text \<open>
  One constructor for each \<open>console.log\<close> of the program, with the values it
  interpolates (numbers are kept as numbers, not formatted), and \<open>Ask\<close> for a question
  put to the user. \<open>LogTable\<close> is \<open>ProbabilityTable.display\<close>, which prints the matrix
  it is given.
\<close>

datatype out =
    LogWelcome
  | LogTypeHelp
  | LogFirstMoveIntro
  | LogSelected int string
  | LogThanks
  | LogInvalid01
  | LogMySelection nat string
  | LogGuessedRight
  | LogIMoveFirst
  | LogTable "jsnum list list"
  | LogInvalidChoice
  | LogYouChose "jsnum list"
  | LogIChoose "jsnum list"
  | LogMyThrowTime
  | LogInvalidNumber
  | LogMyNumber nat string
  | LogResult nat int nat nat
  | LogMyThrow jsnum
  | LogYourThrowTime
  | LogYourThrow jsnum
  | LogYouWin jsnum jsnum
  | LogIWin jsnum jsnum
  | LogTie
  | Ask prompt

section \<open>class Game\<close>

text \<open>
  \<open>play\<close> is an async function: it runs until it awaits a line of input, and goes on
  when the line arrives. The control point says where it waits, with the local
  variables in scope there, or how it ended:
  \<^item> \<open>AwaitGuess randomNumber hmac\<close>: in \<open>determineFirstMove\<close>, at \<open>userInput\<close>;
  \<^item> \<open>AwaitDice\<close>: at the top of the \<open>while (true)\<close> loop, at \<open>userInput\<close>;
  \<^item> \<open>AwaitUserMod userDiceIndex computerDiceIndex computerThrow computerHMAC\<close>: at
    \<open>userModInput\<close>;
  \<^item> \<open>AwaitUserModThrow userDiceIndex computerDiceIndex computerThrow computerHMAC
    computerRoll userThrow userHMAC\<close>: at \<open>userModThrowInput\<close>;
  \<^item> \<open>Closed\<close>: the loop was left by \<open>break\<close> and \<open>rl.close()\<close> ran;
  \<^item> \<open>Exited c\<close>: \<open>process.exit(c)\<close>;
  \<^item> \<open>Rejected e\<close>: an exception left \<open>play\<close>;
  \<^item> \<open>Diverged\<close>: a loop that never ends.
\<close>

datatype control =
    AwaitGuess nat string
  | AwaitDice
  | AwaitUserMod nat nat nat string
  | AwaitUserModThrow nat nat nat string jsnum nat string
  | Closed
  | Exited nat
  | Rejected error
  | Diverged

text \<open>
  The fields \<open>dice\<close> and \<open>generator\<close> are those of the class. The others are the rest
  of the running program: the number of calls made to the random source, the constant
  \<open>userGoesFirst\<close> of \<open>play\<close> (\<open>None\<close> until the first move is decided), what has been
  printed, and the control point.
\<close>

record Game =
  dice :: "Dice list"
  generator :: FairRandomGenerator
  tick :: nat
  userGoesFirst :: "bool option"
  out :: "out list"
  ctl :: control

definition newGame :: "Dice list \<Rightarrow> Game" where
  "newGame ds =
     \<lparr>dice = ds, generator = newFairRandomGenerator, tick = 0, userGoesFirst = None,
      out = [], ctl = AwaitDice\<rparr>"

definition log_js :: "Game \<Rightarrow> out list \<Rightarrow> Game" where
  "log_js s es = s\<lparr>out := out s @ es\<rparr>"

text \<open>\<open>this.dice[i]\<close> followed by \<open>.faces\<close>: out of range the read of \<open>.faces\<close> throws.\<close>

definition diceAt :: "Dice list \<Rightarrow> nat \<Rightarrow> error + Dice" where
  "diceAt ds i = (if i < length ds then Inr (ds ! i) else Inl TypeError)"

text \<open>\<open>(committed + c) % n\<close> on two non-negative integers, \<open>n\<close> the number of faces.\<close>

definition throwResult :: "nat \<Rightarrow> nat \<Rightarrow> nat \<Rightarrow> nat" where
  "throwResult committed c n = (committed + c) mod n"

text \<open>The comparison that closes a round (the \<open>if\<close> chain at the end of the loop body).\<close>

definition compareRolls :: "jsnum \<Rightarrow> jsnum \<Rightarrow> out" where
  "compareRolls userRoll computerRoll =
     (if js_gt userRoll computerRoll then LogYouWin userRoll computerRoll
      else if js_lt userRoll computerRoll then LogIWin computerRoll userRoll
      else LogTie)"

text \<open>
  The identifier \<open>o\<close> that tags the template literal of the second
  \<open>The result is ...\<close> line. The program declares no \<open>o\<close>, so reading it throws.
\<close>

definition tag_o :: "error + unit" where
  "tag_o = Inl ReferenceError"

text \<open>The top of \<open>determineFirstMove\<close>, up to its question.\<close>

definition determineFirstMove :: "runtime \<Rightarrow> Game \<Rightarrow> Game" where
  "determineFirstMove rt s =
     (let s1 = log_js s [LogFirstMoveIntro]
      in case generateRandom rt (generator s1) 2 (tick s1) of
           None \<Rightarrow> s1\<lparr>ctl := Diverged\<rparr>
         | Some (Inl e) \<Rightarrow> s1\<lparr>ctl := Rejected e\<rparr>
         | Some (Inr (c, g1, t1)) \<Rightarrow>
             s1\<lparr>generator := g1, tick := t1,
                out := out s1 @ [LogSelected 1 (hmac c), Ask GuessPrompt],
                ctl := AwaitGuess (randomNumber c) (hmac c)\<rparr>)"

text \<open>The top of the \<open>while (true)\<close> loop: the question for a die.\<close>

definition chooseDice :: "Game \<Rightarrow> Game" where
  "chooseDice s = s\<lparr>out := out s @ [Ask DicePrompt], ctl := AwaitDice\<rparr>"

text \<open>\<open>determineFirstMove\<close> from the answer to its question to the first question of the loop.\<close>

definition afterGuess :: "runtime \<Rightarrow> Game \<Rightarrow> nat \<Rightarrow> string \<Rightarrow> string \<Rightarrow> Game" where
  "afterGuess rt s randomNumber' hmac' userInput =
     (if userInput = ''X'' \<or> userInput = ''x''
      then (log_js s [LogThanks])\<lparr>ctl := Exited 0\<rparr>
      else
        (let invalid = determineFirstMove rt (log_js s [LogInvalid01])
         in case parseInt10 userInput of
              None \<Rightarrow> invalid
            | Some userGuess \<Rightarrow>
                if userGuess < 0 \<or> userGuess > 1 then invalid
                else
                  (case getSecretKey (generator s) of
                     Inl e \<Rightarrow> s\<lparr>ctl := Rejected e\<rparr>
                   | Inr key \<Rightarrow>
                       (let s1 = log_js s [LogMySelection randomNumber' key];
                            first = (userGuess = int randomNumber');
                            s2 = log_js s1 [if first then LogGuessedRight else LogIMoveFirst]
                        in chooseDice (s2\<lparr>userGoesFirst := Some first\<rparr>)))))"

text \<open>The loop body from the answer to the die question to the question of the host's throw.\<close>

definition afterDice :: "runtime \<Rightarrow> Game \<Rightarrow> string \<Rightarrow> Game" where
  "afterDice rt s userInput =
     (if userInput = ''X'' \<or> userInput = ''x''
      then (log_js s [LogThanks])\<lparr>ctl := Closed\<rparr>
      else if userInput = ''?''
      then chooseDice (log_js s [LogTable (calculate (dice s))])
      else
        (let invalid = chooseDice (log_js s [LogInvalidChoice])
         in case parseInt10 userInput of
              None \<Rightarrow> invalid
            | Some userDiceIndex \<Rightarrow>
                if userDiceIndex < 0 \<or> userDiceIndex \<ge> int (length (dice s)) then invalid
                else
                  (case diceAt (dice s) (nat userDiceIndex) of
                     Inl e \<Rightarrow> s\<lparr>ctl := Rejected e\<rparr>
                   | Inr ud \<Rightarrow>
                       (let s1 = log_js s [LogYouChose (faces ud)]
                        in case generateUniformRandom rt (length (dice s)) (tick s1) of
                             None \<Rightarrow> s1\<lparr>ctl := Diverged\<rparr>
                           | Some (Inl e) \<Rightarrow> s1\<lparr>ctl := Rejected e\<rparr>
                           | Some (Inr (computerDiceIndex, t1)) \<Rightarrow>
                               (case diceAt (dice s) computerDiceIndex of
                                  Inl e \<Rightarrow> s1\<lparr>tick := t1, ctl := Rejected e\<rparr>
                                | Inr cd \<Rightarrow>
                                    (let s2 = log_js (s1\<lparr>tick := t1\<rparr>)
                                                [LogIChoose (faces cd), LogMyThrowTime];
                                         n = length (faces cd)
                                     in case generateRandom rt (generator s2) n (tick s2) of
                                          None \<Rightarrow> s2\<lparr>ctl := Diverged\<rparr>
                                        | Some (Inl e) \<Rightarrow> s2\<lparr>ctl := Rejected e\<rparr>
                                        | Some (Inr (c, g1, t2)) \<Rightarrow>
                                            s2\<lparr>generator := g1, tick := t2,
                                               out := out s2 @ [LogSelected (int n - 1) (hmac c),
                                                                Ask (ModPrompt n)],
                                               ctl := AwaitUserMod (nat userDiceIndex)
                                                        computerDiceIndex (randomNumber c)
                                                        (hmac c)\<rparr>))))))"

text \<open>
  The loop body from the answer to the first modular question (the host's throw) to
  the second one.
\<close>

definition afterUserMod ::
  "runtime \<Rightarrow> Game \<Rightarrow> nat \<Rightarrow> nat \<Rightarrow> nat \<Rightarrow> string \<Rightarrow> string \<Rightarrow> Game" where
  "afterUserMod rt s userDiceIndex computerDiceIndex computerThrow computerHMAC userModInput =
     (if userModInput = ''X'' \<or> userModInput = ''x''
      then (log_js s [LogThanks])\<lparr>ctl := Closed\<rparr>
      else
        (let invalid = chooseDice (log_js s [LogInvalidNumber])
         in case parseInt10 userModInput of
              None \<Rightarrow> invalid
            | Some userNumber \<Rightarrow>
                if userNumber < 0 then invalid
                else
                  (case diceAt (dice s) computerDiceIndex of
                     Inl e \<Rightarrow> s\<lparr>ctl := Rejected e\<rparr>
                   | Inr cd \<Rightarrow>
                       (let n = length (faces cd)
                        in if userNumber \<ge> int n then invalid
                           else
                             (case getSecretKey (generator s) of
                                Inl e \<Rightarrow> s\<lparr>ctl := Rejected e\<rparr>
                              | Inr key \<Rightarrow>
                                  (let result = throwResult computerThrow (nat userNumber) n;
                                       computerRoll = faces cd ! result;
                                       s1 = log_js s [LogMyNumber computerThrow key,
                                                      LogResult computerThrow userNumber result n,
                                                      LogMyThrow computerRoll,
                                                      LogYourThrowTime]
                                   in case diceAt (dice s) userDiceIndex of
                                        Inl e \<Rightarrow> s1\<lparr>ctl := Rejected e\<rparr>
                                      | Inr ud \<Rightarrow>
                                          (let m = length (faces ud)
                                           in case generateRandom rt (generator s1) m (tick s1) of
                                                None \<Rightarrow> s1\<lparr>ctl := Diverged\<rparr>
                                              | Some (Inl e) \<Rightarrow> s1\<lparr>ctl := Rejected e\<rparr>
                                              | Some (Inr (c, g1, t1)) \<Rightarrow>
                                                  s1\<lparr>generator := g1, tick := t1,
                                                     out := out s1 @ [LogSelected (int m - 1) (hmac c),
                                                                      Ask (ModPrompt m)],
                                                     ctl := AwaitUserModThrow userDiceIndex
                                                              computerDiceIndex computerThrow
                                                              computerHMAC computerRoll
                                                              (randomNumber c) (hmac c)\<rparr>)))))))"

text \<open>
  The loop body from the answer to the second modular question (the player's throw) to
  the end of the iteration. The \<open>console.log\<close> of the result line evaluates the tag
  \<open>o\<close> first; what follows it is reached only if that evaluation returns.
\<close>

definition afterUserModThrow ::
  "runtime \<Rightarrow> Game \<Rightarrow> nat \<Rightarrow> jsnum \<Rightarrow> nat \<Rightarrow> string \<Rightarrow> Game" where
  "afterUserModThrow rt s userDiceIndex computerRoll userThrow userModThrowInput =
     (if userModThrowInput = ''X'' \<or> userModThrowInput = ''x''
      then (log_js s [LogThanks])\<lparr>ctl := Closed\<rparr>
      else
        (let invalid = chooseDice (log_js s [LogInvalidNumber])
         in case parseInt10 userModThrowInput of
              None \<Rightarrow> invalid
            | Some userModNumber \<Rightarrow>
                if userModNumber < 0 then invalid
                else
                  (case diceAt (dice s) userDiceIndex of
                     Inl e \<Rightarrow> s\<lparr>ctl := Rejected e\<rparr>
                   | Inr ud \<Rightarrow>
                       (let m = length (faces ud)
                        in if userModNumber \<ge> int m then invalid
                           else
                             (case getSecretKey (generator s) of
                                Inl e \<Rightarrow> s\<lparr>ctl := Rejected e\<rparr>
                              | Inr key \<Rightarrow>
                                  (let s1 = log_js s [LogMyNumber userThrow key];
                                       userResult = throwResult userThrow (nat userModNumber) m
                                   in case tag_o of
                                        Inl e \<Rightarrow> s1\<lparr>ctl := Rejected e\<rparr>
                                      | Inr u \<Rightarrow>
                                          (let s2 = log_js s1 [LogResult userThrow userModNumber
                                                                 userResult m];
                                               userRoll = faces ud ! userResult;
                                               s3 = log_js s2 [LogYourThrow userRoll,
                                                               compareRolls userRoll computerRoll]
                                           in chooseDice s3)))))))"

text \<open>One line of input arrives. A program that has ended reads nothing more.\<close>

definition step :: "runtime \<Rightarrow> Game \<Rightarrow> string \<Rightarrow> Game" where
  "step rt s line =
     (case ctl s of
        AwaitGuess randomNumber' hmac' \<Rightarrow> afterGuess rt s randomNumber' hmac' line
      | AwaitDice \<Rightarrow> afterDice rt s line
      | AwaitUserMod userDiceIndex computerDiceIndex computerThrow computerHMAC \<Rightarrow>
          afterUserMod rt s userDiceIndex computerDiceIndex computerThrow computerHMAC line
      | AwaitUserModThrow userDiceIndex computerDiceIndex computerThrow computerHMAC
          computerRoll userThrow userHMAC \<Rightarrow>
          afterUserModThrow rt s userDiceIndex computerRoll userThrow line
      | Closed \<Rightarrow> s
      | Exited c \<Rightarrow> s
      | Rejected e \<Rightarrow> s
      | Diverged \<Rightarrow> s)"

definition run :: "runtime \<Rightarrow> Game \<Rightarrow> string list \<Rightarrow> Game" where
  "run rt s lines = foldl (step rt) s lines"

text \<open>\<open>play\<close> from its start to the first question.\<close>

definition play :: "runtime \<Rightarrow> Game \<Rightarrow> Game" where
  "play rt s = determineFirstMove rt (log_js s [LogWelcome, LogTypeHelp])"

section \<open>The top level\<close>

text \<open>
  \<open>try { dice = parseDice(argv); game = new Game(dice); game.play(); } catch (error)
  { console.error("Error:", error.message); }\<close>. The result is what was written to the
  standard error and the game that was started, if any.
\<close>

record process =
  stderr :: "string list"
  session :: "Game option"

definition main :: "runtime \<Rightarrow> string list \<Rightarrow> process" where
  "main rt argv =
     (case parseDice argv of
        Inl e \<Rightarrow> \<lparr>stderr = [''Error: '' @ message e], session = None\<rparr>
      | Inr ds \<Rightarrow> \<lparr>stderr = [], session = Some (play rt (newGame ds))\<rparr>)"

text \<open>The lines that report the outcome of a round.\<close>

fun isOutcome :: "out \<Rightarrow> bool" where
  "isOutcome (LogYouWin a b) = True"
| "isOutcome (LogIWin a b) = True"
| "isOutcome LogTie = True"
| "isOutcome e = False"

section \<open>A concrete runtime and concrete dice, to run the model on\<close>

text \<open>
  \<open>scripted ds\<close> answers call number \<open>t\<close> of \<open>crypto.randomInt(lo, hi)\<close> with
  \<open>lo\<close> plus entry \<open>t\<close> of the list \<open>ds\<close> (\<open>0\<close> once the list is used up) and
  refuses an empty range; an entry that is too large stands for a source that breaks
  its contract. Its key at call \<open>t\<close> is 32 bytes of value \<open>t\<close>; its keyed
  hash is a stand-in that writes down the algorithm, the key and the message.
\<close>

definition scripted :: "nat list \<Rightarrow> runtime" where
  "scripted ds =
     \<lparr>randomBytes = (\<lambda>t n. replicate n (of_nat t)),
      randomInt = (\<lambda>t lo hi. if hi \<le> lo then Inl RangeError
                              else Inr (lo + (if t < length ds then ds ! t else 0))),
      createHmac = (\<lambda>alg key msg. alg @ '':'' @ toHex key @ '':'' @ msg)\<rparr>"

text \<open>
  \<open>crypto.randomInt(lo, hi)\<close> of Node checks its arguments before it draws: \<open>hi\<close> has
  to be greater than \<open>lo\<close>, and \<open>hi - lo\<close> at most \<open>2^48 - 1\<close>, which is
  \<open>281474976710655\<close>; otherwise it throws a RangeError. \<open>nodeChecked rt\<close> is the
  runtime \<open>rt\<close> behind that check.
\<close>

definition nodeChecked :: "runtime \<Rightarrow> runtime" where
  "nodeChecked rt =
     rt\<lparr>randomInt := (\<lambda>t lo hi. if hi \<le> lo \<or> 281474976710655 < hi - lo then Inl RangeError
                                   else randomInt rt t lo hi)\<rparr>"

text \<open>The dice \<open>1,1,1,1,1,1\<close>, \<open>0,0,0,0,0,0\<close> and \<open>2,2,2,2,2,2\<close>.\<close>

definition constantDice :: "Dice list" where
  "constantDice =
     [\<lparr>faces = replicate 6 (Fin 1)\<rparr>, \<lparr>faces = replicate 6 (Fin 0)\<rparr>,
      \<lparr>faces = replicate 6 (Fin 2)\<rparr>]"

section \<open>Evaluating the concrete runtime\<close>

lemma scripted_simps [simp]:
  "randomBytes (scripted ds) t n = replicate n (of_nat t)"
  "randomInt (scripted ds) t lo hi =
     (if hi \<le> lo then Inl RangeError
      else Inr (lo + (if t < length ds then ds ! t else 0)))"
  "createHmac (scripted ds) alg key msg = alg @ '':'' @ toHex key @ '':'' @ msg"
  by (simp_all add: scripted_def)

lemma nodeChecked_simps [simp]:
  "randomBytes (nodeChecked rt) = randomBytes rt"
  "randomInt (nodeChecked rt) t lo hi =
     (if hi \<le> lo \<or> 281474976710655 < hi - lo then Inl RangeError else randomInt rt t lo hi)"
  "createHmac (nodeChecked rt) = createHmac rt"
  by (simp_all add: nodeChecked_def)

section \<open>The modular sum of a throw\<close>

lemma mod_add_cancel_right_nat:
  fixes v w c n :: nat
  assumes "(v + c) mod n = (w + c) mod n"
  shows "v mod n = w mod n"
proof -
  from assms obtain q1 q2 where "v + c + n * q1 = w + c + n * q2"
    unfolding nat_mod_eq_iff by blast
  then have "v + n * q1 = w + n * q2" by simp
  then show ?thesis unfolding nat_mod_eq_iff by blast
qed

lemma throwResult_inj_left:
  assumes "0 < n"
  shows "inj_on (\<lambda>v. throwResult v c n) {..<n}"
proof (rule inj_onI)
  fix v w assume v: "v \<in> {..<n}" and w: "w \<in> {..<n}"
    and e: "throwResult v c n = throwResult w c n"
  from e have "(v + c) mod n = (w + c) mod n" by (simp add: throwResult_def)
  then have "v mod n = w mod n" by (rule mod_add_cancel_right_nat)
  with v w show "v = w" by simp
qed

lemma throwResult_bij_left:
  assumes "0 < n"
  shows "bij_betw (\<lambda>v. throwResult v c n) {..<n} {..<n}"
proof -
  have sub: "(\<lambda>v. throwResult v c n) ` {..<n} \<subseteq> {..<n}"
    using assms by (auto simp: throwResult_def)
  have "(\<lambda>v. throwResult v c n) ` {..<n} = {..<n}"
    by (rule endo_inj_surj [OF _ sub throwResult_inj_left [OF assms]]) simp
  with throwResult_inj_left [OF assms] show ?thesis by (simp add: bij_betw_def)
qed

lemma throwResult_commute: "throwResult v c n = throwResult c v n"
  by (simp add: throwResult_def add.commute)

lemma throwResult_bij_right:
  assumes "0 < n"
  shows "bij_betw (\<lambda>c. throwResult v c n) {..<n} {..<n}"
  using throwResult_bij_left [OF assms, of v] by (simp add: throwResult_commute [of v])

lemma throwResult_hits_once:
  fixes x :: real
  assumes "0 < n" "r < n"
  shows "(\<Sum>v<n. if throwResult v c n = r then x else 0) = x"
proof -
  have "(\<Sum>v<n. if throwResult v c n = r then x else 0)
        = (\<Sum>w<n. if w = r then x else 0)"
    by (rule sum.reindex_bij_betw [OF throwResult_bij_left [OF assms(1)],
          of "\<lambda>w. if w = r then x else 0" c])
  also have "\<dots> = x" using assms(2) by simp
  finally show ?thesis .
qed

lemma throwResult_uniform:
  fixes p :: "nat \<Rightarrow> real"
  assumes "0 < n" "r < n" "(\<Sum>c<n. p c) = 1"
  shows "(\<Sum>c<n. \<Sum>v<n. if throwResult v c n = r then p c * (1 / real n) else 0) = 1 / real n"
proof -
  have "(\<Sum>c<n. \<Sum>v<n. if throwResult v c n = r then p c * (1 / real n) else 0)
        = (\<Sum>c<n. p c * (1 / real n))"
    by (rule sum.cong) (simp_all add: throwResult_hits_once [OF assms(1,2)])
  also have "\<dots> = (\<Sum>c<n. p c) * (1 / real n)" by (simp add: sum_divide_distrib)
  finally show ?thesis using assms(3) by simp
qed

lemma afterUserMod_valid:
  assumes "u \<noteq> ''X''" "u \<noteq> ''x''" "parseInt10 u = Some k" "0 \<le> k"
    and "diceAt (dice s) ci = Inr cd" "k < int (length (faces cd))"
    and "getSecretKey (generator s) = Inr key"
    and "diceAt (dice s) ui = Inr ud"
    and "generateRandom rt (generator s) (length (faces ud)) (tick s) = Some (Inr (c, g1, t1))"
  shows "afterUserMod rt s ui ci ct ch u
         = s\<lparr>generator := g1, tick := t1,
              out := out s @ [LogMyNumber ct key,
                              LogResult ct k (throwResult ct (nat k) (length (faces cd)))
                                (length (faces cd)),
                              LogMyThrow (faces cd ! throwResult ct (nat k) (length (faces cd))),
                              LogYourThrowTime,
                              LogSelected (int (length (faces ud)) - 1) (hmac c),
                              Ask (ModPrompt (length (faces ud)))],
              ctl := AwaitUserModThrow ui ci ct ch
                       (faces cd ! throwResult ct (nat k) (length (faces cd)))
                       (randomNumber c) (hmac c)\<rparr>"
  using assms by (simp add: afterUserMod_def Let_def log_js_def)

lemma afterUserMod_result_logged:
  assumes "u \<noteq> ''X''" "u \<noteq> ''x''" "parseInt10 u = Some k" "0 \<le> k"
    and "diceAt (dice s) ci = Inr cd" "k < int (length (faces cd))"
    and "getSecretKey (generator s) = Inr key"
  shows "\<exists>es. out (afterUserMod rt s ui ci ct ch u)
           = out s @ [LogMyNumber ct key,
                      LogResult ct k ((ct + nat k) mod length (faces cd)) (length (faces cd)),
                      LogMyThrow (faces cd ! ((ct + nat k) mod length (faces cd))),
                      LogYourThrowTime] @ es"
  using assms
  by (auto simp: afterUserMod_def Let_def log_js_def throwResult_def
           split: sum.splits option.splits prod.splits)

text \<open>
  Claim C2. For every number of faces \<open>n > 0\<close> the result of a throw is
  \<open>(committed + c) mod n\<close>, an index below \<open>n\<close>. With the contribution \<open>c\<close> fixed, the
  committed value is mapped one-to-one onto \<open>[0, n)\<close>, and so is the contribution with
  the committed value fixed. Hence the result is uniform as soon as one addend is
  uniform and independent of the other: if one addend takes each value with
  probability \<open>1 / n\<close> and the other one follows any distribution \<open>p\<close> on \<open>[0, n)\<close>,
  every result \<open>r\<close> has probability \<open>1 / n\<close> (the sum, over the pairs that give \<open>r\<close>,
  of the product of the two probabilities). And this is the result the game computes:
  when the answer \<open>k\<close> to the question of the host's throw is valid, the program prints
  the committed number and the key, then the result \<open>(computerThrow + k) mod n\<close>, then
  the face of the host's die at that index, and that face is the host's roll it keeps
  for the rest of the round.
\<close>

theorem throwResult_fair:
  fixes p :: "nat \<Rightarrow> real"
  assumes "0 < n"
  shows "throwResult v c n = (v + c) mod n
       \<and> throwResult v c n < n
       \<and> bij_betw (\<lambda>v. throwResult v c n) {..<n} {..<n}
       \<and> bij_betw (\<lambda>c. throwResult v c n) {..<n} {..<n}
       \<and> (r < n \<longrightarrow> (\<Sum>c<n. p c) = 1 \<longrightarrow>
            (\<Sum>c<n. \<Sum>v<n. if throwResult v c n = r then p c * (1 / real n) else 0) = 1 / real n)
       \<and> (r < n \<longrightarrow> (\<Sum>v<n. p v) = 1 \<longrightarrow>
            (\<Sum>v<n. \<Sum>c<n. if throwResult v c n = r then p v * (1 / real n) else 0) = 1 / real n)
       \<and> (ctl s = AwaitUserMod ui ci ct ch \<longrightarrow> line \<noteq> ''X'' \<longrightarrow> line \<noteq> ''x'' \<longrightarrow>
            parseInt10 line = Some k \<longrightarrow> 0 \<le> k \<longrightarrow> diceAt (dice s) ci = Inr cd \<longrightarrow>
            length (faces cd) = n \<longrightarrow> k < int n \<longrightarrow> getSecretKey (generator s) = Inr key \<longrightarrow>
            (\<exists>es. out (step rt s line)
                   = out s @ [LogMyNumber ct key,
                              LogResult ct k ((ct + nat k) mod n) n,
                              LogMyThrow (faces cd ! ((ct + nat k) mod n)),
                              LogYourThrowTime] @ es)
            \<and> (diceAt (dice s) ui = Inr ud \<longrightarrow>
                 generateRandom rt (generator s) (length (faces ud)) (tick s)
                   = Some (Inr (cm, g1, t1)) \<longrightarrow>
                 ctl (step rt s line)
                   = AwaitUserModThrow ui ci ct ch (faces cd ! ((ct + nat k) mod n))
                       (randomNumber cm) (hmac cm)))"
proof -
  have a: "throwResult v c n = (v + c) mod n" by (simp add: throwResult_def)
  have b: "throwResult v c n < n" using assms by (simp add: throwResult_def)
  have e: "r < n \<longrightarrow> (\<Sum>c<n. p c) = 1 \<longrightarrow>
      (\<Sum>c<n. \<Sum>v<n. if throwResult v c n = r then p c * (1 / real n) else 0) = 1 / real n"
    using throwResult_uniform [OF assms] by blast
  have f: "r < n \<longrightarrow> (\<Sum>v<n. p v) = 1 \<longrightarrow>
      (\<Sum>v<n. \<Sum>c<n. if throwResult v c n = r then p v * (1 / real n) else 0) = 1 / real n"
  proof (intro impI)
    assume r: "r < n" and s: "(\<Sum>v<n. p v) = 1"
    have "(\<Sum>v<n. \<Sum>c<n. if throwResult v c n = r then p v * (1 / real n) else 0)
          = (\<Sum>v<n. \<Sum>c<n. if throwResult c v n = r then p v * (1 / real n) else 0)"
      by (simp add: throwResult_commute [of _ _ n])
    also have "\<dots> = 1 / real n" by (rule throwResult_uniform [OF assms r s])
    finally show "(\<Sum>v<n. \<Sum>c<n. if throwResult v c n = r then p v * (1 / real n) else 0)
                  = 1 / real n" .
  qed
  have g: "ctl s = AwaitUserMod ui ci ct ch \<longrightarrow> line \<noteq> ''X'' \<longrightarrow> line \<noteq> ''x'' \<longrightarrow>
            parseInt10 line = Some k \<longrightarrow> 0 \<le> k \<longrightarrow> diceAt (dice s) ci = Inr cd \<longrightarrow>
            length (faces cd) = n \<longrightarrow> k < int n \<longrightarrow> getSecretKey (generator s) = Inr key \<longrightarrow>
            (\<exists>es. out (step rt s line)
                   = out s @ [LogMyNumber ct key,
                              LogResult ct k ((ct + nat k) mod n) n,
                              LogMyThrow (faces cd ! ((ct + nat k) mod n)),
                              LogYourThrowTime] @ es)
            \<and> (diceAt (dice s) ui = Inr ud \<longrightarrow>
                 generateRandom rt (generator s) (length (faces ud)) (tick s)
                   = Some (Inr (cm, g1, t1)) \<longrightarrow>
                 ctl (step rt s line)
                   = AwaitUserModThrow ui ci ct ch (faces cd ! ((ct + nat k) mod n))
                       (randomNumber cm) (hmac cm))"
  proof (intro impI)
    assume c: "ctl s = AwaitUserMod ui ci ct ch"
      and v: "line \<noteq> ''X''" "line \<noteq> ''x''" "parseInt10 line = Some k" "0 \<le> k"
        "diceAt (dice s) ci = Inr cd"
      and l: "length (faces cd) = n" and kn: "k < int n"
      and key: "getSecretKey (generator s) = Inr key"
    from l kn have k: "k < int (length (faces cd))" by simp
    from c have st: "step rt s line = afterUserMod rt s ui ci ct ch line"
      by (simp add: step_def)
    have p1: "\<exists>es. out (step rt s line)
                   = out s @ [LogMyNumber ct key,
                              LogResult ct k ((ct + nat k) mod n) n,
                              LogMyThrow (faces cd ! ((ct + nat k) mod n)),
                              LogYourThrowTime] @ es"
      using afterUserMod_result_logged [OF v k key, of rt ui ct ch] l st by simp
    have p2: "ctl (step rt s line)
                   = AwaitUserModThrow ui ci ct ch (faces cd ! ((ct + nat k) mod n))
                       (randomNumber cm) (hmac cm)"
      if u: "diceAt (dice s) ui = Inr ud"
        and r: "generateRandom rt (generator s) (length (faces ud)) (tick s)
                 = Some (Inr (cm, g1, t1))"
      using afterUserMod_valid [OF v k key u r, of ct ch] l st by (simp add: throwResult_def)
    from p1 p2 show "(\<exists>es. out (step rt s line)
                   = out s @ [LogMyNumber ct key,
                              LogResult ct k ((ct + nat k) mod n) n,
                              LogMyThrow (faces cd ! ((ct + nat k) mod n)),
                              LogYourThrowTime] @ es)
            \<and> (diceAt (dice s) ui = Inr ud \<longrightarrow>
                 generateRandom rt (generator s) (length (faces ud)) (tick s)
                   = Some (Inr (cm, g1, t1)) \<longrightarrow>
                 ctl (step rt s line)
                   = AwaitUserModThrow ui ci ct ch (faces cd ! ((ct + nat k) mod n))
                       (randomNumber cm) (hmac cm))"
      by blast
  qed
  from a b throwResult_bij_left [OF assms] throwResult_bij_right [OF assms] e f g
  show ?thesis by blast
qed

theorem throwResult_fair_witness:
  "(0::nat) < 6 \<and> throwResult 4 3 6 = 1
   \<and> bij_betw (\<lambda>v. throwResult v 3 6) {..<6} {..<6}
   \<and> bij_betw (\<lambda>c. throwResult 4 c 6) {..<6} {..<6}
   \<and> (\<Sum>c<6. \<Sum>v<6. if throwResult v c 6 = 1
                      then (if c = 3 then 1 else 0) * (1 / real 6) else 0) = 1 / real 6
   \<and> ctl (run (scripted [0, 1, 2, 0, 4, 0, 0]) (play (scripted [0, 1, 2, 0, 4, 0, 0]) (newGame constantDice))
          [''0'', ''0''])
     = AwaitUserMod 0 2 4 (''sha3-256:'' @ toHex (replicate 32 3) @ '':4'')
   \<and> parseInt10 ''3'' = Some 3
   \<and> diceAt (dice (run (scripted [0, 1, 2, 0, 4, 0, 0])
                      (play (scripted [0, 1, 2, 0, 4, 0, 0]) (newGame constantDice)) [''0'', ''0''])) 2
     = Inr \<lparr>faces = replicate 6 (Fin 2)\<rparr>
   \<and> getSecretKey (generator (run (scripted [0, 1, 2, 0, 4, 0, 0])
                      (play (scripted [0, 1, 2, 0, 4, 0, 0]) (newGame constantDice)) [''0'', ''0'']))
     = Inr (toHex (replicate 32 3))
   \<and> LogResult 4 3 1 6
       \<in> set (out (step (scripted [0, 1, 2, 0, 4, 0, 0])
                     (run (scripted [0, 1, 2, 0, 4, 0, 0])
                        (play (scripted [0, 1, 2, 0, 4, 0, 0]) (newGame constantDice)) [''0'', ''0''])
                     ''3''))
   \<and> LogMyThrow (Fin 2)
       \<in> set (out (step (scripted [0, 1, 2, 0, 4, 0, 0])
                     (run (scripted [0, 1, 2, 0, 4, 0, 0])
                        (play (scripted [0, 1, 2, 0, 4, 0, 0]) (newGame constantDice)) [''0'', ''0''])
                     ''3''))
   \<and> ctl (step (scripted [0, 1, 2, 0, 4, 0, 0])
            (run (scripted [0, 1, 2, 0, 4, 0, 0])
               (play (scripted [0, 1, 2, 0, 4, 0, 0]) (newGame constantDice)) [''0'', ''0'']) ''3'')
     = AwaitUserModThrow 0 2 4 (''sha3-256:'' @ toHex (replicate 32 3) @ '':4'') (Fin 2) 0
         (''sha3-256:'' @ toHex (replicate 32 5) @ '':0'')"
proof -
  let ?rt = "scripted [0, 1, 2, 0, 4, 0, 0]"
  let ?h = "run ?rt (play ?rt (newGame constantDice)) [''0'', ''0'']"
  let ?cd = "\<lparr>faces = replicate 6 (Fin 2)\<rparr>"
  let ?ud = "\<lparr>faces = replicate 6 (Fin 1)\<rparr>"
  let ?cm = "\<lparr>randomNumber = 0, hmac = ''sha3-256:'' @ toHex (replicate 32 5) @ '':0''\<rparr>"
  have s: "(\<Sum>c<6::nat. (if c = 3 then 1 else 0 :: real)) = 1" by simp
  have z: "(0::nat) < 6" by simp
  have h1: "ctl ?h = AwaitUserMod 0 2 4 (''sha3-256:'' @ toHex (replicate 32 3) @ '':4'')"
    by code_simp
  have h2: "parseInt10 ''3'' = Some 3" by code_simp
  have h3: "diceAt (dice ?h) 2 = Inr ?cd" by code_simp
  have h4: "getSecretKey (generator ?h) = Inr (toHex (replicate 32 3))" by code_simp
  have h5: "diceAt (dice ?h) 0 = Inr ?ud" by code_simp
  have h6: "generateRandom ?rt (generator ?h) (length (faces ?ud)) (tick ?h)
            = Some (Inr (?cm, \<lparr>secretKey = Some (replicate 32 5)\<rparr>, 7))"
    by code_simp
  have n: "''3'' \<noteq> ''X''" "''3'' \<noteq> ''x''" "(0::int) \<le> 3" "length (faces ?cd) = 6" "(3::int) < int 6"
    by simp_all
  note T = throwResult_fair [OF z, where v = 4 and c = 3 and r = 1
             and p = "\<lambda>c. if c = 3 then 1 else 0" and s = ?h and rt = ?rt and line = "''3''"
             and ui = 0 and ci = 2 and ct = 4
             and ch = "''sha3-256:'' @ toHex (replicate 32 3) @ '':4''"
             and k = 3 and cd = ?cd and key = "toHex (replicate 32 3)" and ud = ?ud
             and cm = ?cm and ?g1.0 = "\<lparr>secretKey = Some (replicate 32 5)\<rparr>" and ?t1.0 = 7]
  note G = T [THEN conjunct2, THEN conjunct2, THEN conjunct2, THEN conjunct2, THEN conjunct2,
              THEN conjunct2, THEN mp, THEN mp, THEN mp, THEN mp, THEN mp, THEN mp, THEN mp,
              THEN mp, THEN mp, OF h1 n(1) n(2) h2 n(3) h3 n(4) n(5) h4]
  from G [THEN conjunct1] obtain es where
    o: "out (step ?rt ?h ''3'')
        = out ?h @ [LogMyNumber 4 (toHex (replicate 32 3)),
                    LogResult 4 3 ((4 + nat 3) mod 6) 6,
                    LogMyThrow (faces ?cd ! ((4 + nat 3) mod 6)),
                    LogYourThrowTime] @ es"
    by blast
  have m1: "LogResult 4 3 1 6 \<in> set (out (step ?rt ?h ''3''))" by (subst o) simp
  have m2: "LogMyThrow (Fin 2) \<in> set (out (step ?rt ?h ''3''))" by (subst o) simp
  have m3: "ctl (step ?rt ?h ''3'')
            = AwaitUserModThrow 0 2 4 (''sha3-256:'' @ toHex (replicate 32 3) @ '':4'') (Fin 2) 0
                (''sha3-256:'' @ toHex (replicate 32 5) @ '':0'')"
    by (subst G [THEN conjunct2, THEN mp, THEN mp, OF h5 h6]) simp
  have r: "(1::nat) < 6" by simp
  have f1: "throwResult 4 3 6 = 1" using T [THEN conjunct1] by simp
  have f2: "bij_betw (\<lambda>v. throwResult v 3 6) {..<6} {..<6}"
    by (rule T [THEN conjunct2, THEN conjunct2, THEN conjunct1])
  have f3: "bij_betw (\<lambda>c. throwResult 4 c 6) {..<6} {..<6}"
    by (rule T [THEN conjunct2, THEN conjunct2, THEN conjunct2, THEN conjunct1])
  have f4: "(\<Sum>c<6. \<Sum>v<6. if throwResult v c 6 = 1
                      then (if c = 3 then 1 else 0) * (1 / real 6) else 0) = 1 / real 6"
    by (rule T [THEN conjunct2, THEN conjunct2, THEN conjunct2, THEN conjunct2, THEN conjunct1,
                THEN mp, THEN mp, OF r s])
  show ?thesis by (intro conjI; fact)
qed

section \<open>The commitment generator\<close>

lemma generateUniformRandom_accept:
  "randomInt rt t 0 maxv = Inr n \<Longrightarrow> n < maxv \<Longrightarrow>
   generateUniformRandom rt maxv t = Some (Inr (n, Suc t))"
  by (subst generateUniformRandom.simps) simp






lemma lt16: "(a::nat) < 16 \<Longrightarrow> a \<in> {0,1,2,3,4,5,6,7,8,9,10,11,12,13,14,15}"
  by simp arith

lemma hexDigit_alphabet: "a < 16 \<Longrightarrow> hexDigit a \<in> set ''0123456789abcdef''"
  by (drule lt16) (auto simp: hexDigit_def)

lemma hexDigit_inj: "a < 16 \<Longrightarrow> b < 16 \<Longrightarrow> hexDigit a = hexDigit b \<Longrightarrow> a = b"
  by (drule lt16, drule lt16) (auto simp: hexDigit_def)

lemma hexByte_alphabet: "set (hexByte b) \<subseteq> set ''0123456789abcdef''"
proof -
  have "unat b < 256" using unsigned_less [of b] by simp
  then have "unat b div 16 < 16" by simp
  moreover have "unat b mod 16 < 16" by simp
  ultimately show ?thesis
    unfolding hexByte_def using hexDigit_alphabet by (metis empty_set insert_subset list.simps(15) subset_refl empty_subsetI)
qed

lemma toHex_alphabet: "set (toHex bs) \<subseteq> set ''0123456789abcdef''"
  unfolding toHex_def using hexByte_alphabet by (induction bs) auto

lemma toHex_length: "length (toHex bs) = 2 * length bs"
  by (induction bs) (simp_all add: toHex_def hexByte_def)

lemma generateRandom_accept:
  "randomInt rt (Suc t) 0 maxv = Inr n \<Longrightarrow> n < maxv \<Longrightarrow>
   generateRandom rt g maxv t =
     Some (Inr (\<lparr>randomNumber = n,
                  hmac = createHmac rt ''sha3-256'' (randomBytes rt t 32) (decimalStringOf n)\<rparr>,
                g\<lparr>secretKey := Some (randomBytes rt t 32)\<rparr>, Suc (Suc t)))"
  by (simp add: generateRandom_def generateHMAC_def generateUniformRandom_accept)

lemma generateRandom_Some:
  assumes "generateRandom rt g maxv t = Some (Inr (c, g1, t1))"
  shows "generateUniformRandom rt maxv (Suc t) = Some (Inr (randomNumber c, t1))"
    and "g1 = g\<lparr>secretKey := Some (randomBytes rt t 32)\<rparr>"
    and "hmac c = createHmac rt ''sha3-256'' (randomBytes rt t 32) (decimalStringOf (randomNumber c))"
  using assms
  by (auto simp: generateRandom_def generateHMAC_def Let_def
           split: option.splits sum.splits prod.splits)

lemma hexByte_inj: "hexByte a = hexByte b \<Longrightarrow> a = b"
proof -
  assume e: "hexByte a = hexByte b"
  have la: "unat a < 256" using unsigned_less [of a] by simp
  have lb: "unat b < 256" using unsigned_less [of b] by simp
  from e have "hexDigit (unat a div 16) = hexDigit (unat b div 16)"
    and "hexDigit (unat a mod 16) = hexDigit (unat b mod 16)"
    by (simp_all add: hexByte_def)
  with la lb have "unat a div 16 = unat b div 16" and "unat a mod 16 = unat b mod 16"
    by (auto intro!: hexDigit_inj)
  then have "unat a = unat b" by (metis div_mult_mod_eq)
  then show "a = b" by (simp add: word_unat_eq_iff)
qed

lemma toHex_Cons: "toHex (b # bs) = hexByte b @ toHex bs"
  by (simp add: toHex_def)

lemma toHex_inj: "toHex bs = toHex cs \<Longrightarrow> bs = cs"
proof (induction bs arbitrary: cs)
  case Nil
  then have "length (toHex cs) = 0" by (simp add: toHex_def)
  then show ?case by (simp add: toHex_length)
next
  case (Cons b bs)
  show ?case
  proof (cases cs)
    case Nil
    with Cons.prems have "length (toHex (b # bs)) = 0" by (simp add: toHex_def)
    then show ?thesis by (simp add: toHex_length)
  next
    case (Cons c cs')
    with Cons.prems have "hexByte b @ toHex bs = hexByte c @ toHex cs'"
      by (simp add: toHex_Cons)
    then have "hexByte b = hexByte c" and "toHex bs = toHex cs'"
      by (simp_all add: hexByte_def)
    with Cons.IH hexByte_inj Cons show ?thesis by blast
  qed
qed

text \<open>
  Claim C5. On a generator that has just been constructed, \<open>getSecretKey\<close> fails: \<open>secretKey\<close>
  is still \<open>null\<close>, and the read of \<open>toString\<close> on it throws (a TypeError, which is the
  form the invalid state takes in the program). After a call of \<open>generateRandom\<close> that
  returned, whatever the generator held before, \<open>getSecretKey\<close> returns the key drawn by
  that call, the most recent one, written with two digits of \<open>0123456789abcdef\<close> for
  each byte.
\<close>

theorem getSecretKey_before_and_after_commit:
  "getSecretKey newFairRandomGenerator = Inl TypeError
   \<and> (generateRandom rt g maxv t = Some (Inr (c, g1, t1)) \<longrightarrow>
        getSecretKey g1 = Inr (toHex (randomBytes rt t 32))
        \<and> secretKey g1 = Some (randomBytes rt t 32)
        \<and> set (toHex (randomBytes rt t 32)) \<subseteq> set ''0123456789abcdef''
        \<and> length (toHex (randomBytes rt t 32)) = 2 * length (randomBytes rt t 32))"
  using toHex_alphabet [of "randomBytes rt t 32"] toHex_length [of "randomBytes rt t 32"]
  by (auto simp: getSecretKey_def newFairRandomGenerator_def dest: generateRandom_Some(2))


theorem getSecretKey_before_and_after_commit_witness:
  "generateRandom (scripted [0, 1]) \<lparr>secretKey = Some [1, 2]\<rparr> 2 0
     = Some (Inr (\<lparr>randomNumber = 1, hmac = ''sha3-256:'' @ toHex (replicate 32 0) @ '':1''\<rparr>,
                 \<lparr>secretKey = Some (replicate 32 0)\<rparr>, 2))
   \<and> getSecretKey \<lparr>secretKey = Some (replicate 32 0)\<rparr> = Inr (toHex (replicate 32 0))
   \<and> getSecretKey newFairRandomGenerator = Inl TypeError"
proof -
  have run: "generateRandom (scripted [0, 1]) \<lparr>secretKey = Some [1, 2]\<rparr> 2 0
     = Some (Inr (\<lparr>randomNumber = 1, hmac = ''sha3-256:'' @ toHex (replicate 32 0) @ '':1''\<rparr>,
                 \<lparr>secretKey = Some (replicate 32 0)\<rparr>, 2))"
    by (simp add: generateRandom_accept [where n = 1] decimalStringOf.simps)
  from getSecretKey_before_and_after_commit
         [of "scripted [0, 1]" "\<lparr>secretKey = Some [1, 2]\<rparr>" 2 0
             "\<lparr>randomNumber = 1, hmac = ''sha3-256:'' @ toHex (replicate 32 0) @ '':1''\<rparr>"
             "\<lparr>secretKey = Some (replicate 32 0)\<rparr>" 2] run
  show ?thesis by simp
qed






text \<open>
  Claim C7. For every commitment that \<open>generateRandom\<close> returns, for every \<open>maxv\<close>,
  the digest is the HMAC-SHA3-256 of the decimal string of the committed value under
  the key drawn in that same call (call number \<open>t\<close> of the random source, 256 bits
  when \<open>randomBytes(32)\<close> returns 32 bytes). That key is the one the generator then
  holds and reveals, so recomputing the HMAC from the revealed key and the value gives
  exactly the digest that was disclosed.
\<close>

theorem commitment_digest:
  assumes "generateRandom rt g maxv t = Some (Inr (c, g1, t1))"
  shows "hmac c = createHmac rt ''sha3-256'' (randomBytes rt t 32) (decimalStringOf (randomNumber c))
       \<and> secretKey g1 = Some (randomBytes rt t 32)
       \<and> generateHMAC rt g1 (randomNumber c) = Inr (hmac c)
       \<and> (\<forall>key. getSecretKey g1 = Inr (toHex key) \<longrightarrow>
             createHmac rt ''sha3-256'' key (decimalStringOf (randomNumber c)) = hmac c)
       \<and> (length (randomBytes rt t 32) = 32 \<longrightarrow> 8 * length (randomBytes rt t 32) = 256)"
proof -
  note s = generateRandom_Some [OF assms]
  have k: "secretKey g1 = Some (randomBytes rt t 32)" using s(2) by simp
  have v: "\<forall>key. getSecretKey g1 = Inr (toHex key) \<longrightarrow>
             createHmac rt ''sha3-256'' key (decimalStringOf (randomNumber c)) = hmac c"
  proof (intro allI impI)
    fix key assume "getSecretKey g1 = Inr (toHex key)"
    with k have "toHex (randomBytes rt t 32) = toHex key" by (simp add: getSecretKey_def)
    then have "key = randomBytes rt t 32" using toHex_inj by blast
    with s(3) show "createHmac rt ''sha3-256'' key (decimalStringOf (randomNumber c)) = hmac c"
      by simp
  qed
  from s(3) k v show ?thesis by (simp add: generateHMAC_def)
qed

theorem commitment_digest_witness:
  "generateRandom (scripted [0, 5]) newFairRandomGenerator 6 0
     = Some (Inr (\<lparr>randomNumber = 5, hmac = ''sha3-256:'' @ toHex (replicate 32 0) @ '':5''\<rparr>,
                 \<lparr>secretKey = Some (replicate 32 0)\<rparr>, 2))
   \<and> ''sha3-256:'' @ toHex (replicate 32 0) @ '':5''
       = createHmac (scripted [0, 5]) ''sha3-256'' (replicate 32 0) (decimalStringOf 5)
   \<and> generateHMAC (scripted [0, 5]) \<lparr>secretKey = Some (replicate 32 0)\<rparr> 5
       = Inr (''sha3-256:'' @ toHex (replicate 32 0) @ '':5'')
   \<and> length (randomBytes (scripted [0, 5]) 0 32) = 32"
proof -
  have run: "generateRandom (scripted [0, 5]) newFairRandomGenerator 6 0
     = Some (Inr (\<lparr>randomNumber = 5, hmac = ''sha3-256:'' @ toHex (replicate 32 0) @ '':5''\<rparr>,
                 \<lparr>secretKey = Some (replicate 32 0)\<rparr>, 2))"
    by (simp add: generateRandom_accept [where n = 5] newFairRandomGenerator_def
          decimalStringOf.simps)
  from commitment_digest [OF run] run show ?thesis by simp
qed

section \<open>The probability matrix\<close>

lemma count_inner:
  "fold (\<lambda>face2 w. if P face2 then w + 1 else w) ys (w0::nat) = w0 + length (filter P ys)"
  by (induction ys arbitrary: w0) simp_all

lemma count_pairs:
  "fold (\<lambda>face1. fold (\<lambda>face2 w. if js_gt face1 face2 then w + 1 else w) ys) xs (w0::nat)
   = w0 + length (filter (\<lambda>(a, b). js_gt a b) (List.product xs ys))"
proof (induction xs arbitrary: w0)
  case Nil
  show ?case by simp
next
  case (Cons x xs)
  have "length (filter (\<lambda>(a, b). js_gt a b) (map (Pair x) ys)) = length (filter (js_gt x) ys)"
    by (simp add: filter_map comp_def)
  with Cons show ?case by (simp add: count_inner)
qed

lemma calculateProbability_eq:
  assumes "faces d1 \<noteq> []" "faces d2 \<noteq> []"
  shows "calculateProbability d1 d2
         = Fin (of_nat (length (filter (\<lambda>(a, b). js_gt a b) (List.product (faces d1) (faces d2))))
                / of_nat (length (faces d1) * length (faces d2)))"
  using assms by (simp add: calculateProbability_def count_pairs js_div_def)

lemma js_gt_irrefl: "\<not> js_gt a a"
  by (cases a) simp_all

text \<open>
  Claim C9. For every list of dice in which each die has at least one face,
  \<open>calculate\<close> returns a square matrix: as many rows as there are dice, each row as long.
  Every diagonal entry is \<open>0.5\<close>. The entry in row \<open>i\<close> and column \<open>j\<close>, \<open>i \<noteq> j\<close>, is
  the number of pairs of the cross product of the faces of die \<open>i\<close> with the faces of
  die \<open>j\<close> (a face that occurs twice counts twice) whose first face is strictly greater
  than the second, divided by the product of the two numbers of faces. A pair of equal
  faces is never counted: a tie is a win for neither side.
\<close>

theorem calculate_matrix:
  assumes "\<forall>d \<in> set ds. faces d \<noteq> []"
  shows "length (calculate ds) = length ds
       \<and> (\<forall>i<length ds. length (calculate ds ! i) = length ds
             \<and> calculate ds ! i ! i = Fin (1 / 2)
             \<and> (\<forall>j<length ds. i \<noteq> j \<longrightarrow>
                   calculate ds ! i ! j
                   = Fin (of_nat (length (filter (\<lambda>(a, b). js_gt a b)
                                            (List.product (faces (ds ! i)) (faces (ds ! j)))))
                          / of_nat (length (faces (ds ! i)) * length (faces (ds ! j))))))
       \<and> (\<forall>a. \<not> js_gt a a)"
proof -
  have "calculate ds ! i ! j
          = Fin (of_nat (length (filter (\<lambda>(a, b). js_gt a b)
                                   (List.product (faces (ds ! i)) (faces (ds ! j)))))
                 / of_nat (length (faces (ds ! i)) * length (faces (ds ! j))))"
    if "i < length ds" "j < length ds" "i \<noteq> j" for i j
  proof -
    from that assms have "faces (ds ! i) \<noteq> []" "faces (ds ! j) \<noteq> []" by simp_all
    from calculateProbability_eq [OF this] that show ?thesis by (simp add: calculate_def)
  qed
  then show ?thesis by (simp add: calculate_def js_gt_irrefl)
qed

theorem calculate_matrix_witness:
  "[] \<notin> set (map faces [\<lparr>faces = [Fin 2, Fin 2, Fin 4, Fin 4, Fin 9, Fin 9]\<rparr>,
                            \<lparr>faces = [Fin 6, Fin 8, Fin 1, Fin 1, Fin 8, Fin 6]\<rparr>,
                            \<lparr>faces = [Fin 7, Fin 5, Fin 3, Fin 7, Fin 5, Fin 3]\<rparr>])
   \<and> calculate [\<lparr>faces = [Fin 2, Fin 2, Fin 4, Fin 4, Fin 9, Fin 9]\<rparr>,
                \<lparr>faces = [Fin 6, Fin 8, Fin 1, Fin 1, Fin 8, Fin 6]\<rparr>,
                \<lparr>faces = [Fin 7, Fin 5, Fin 3, Fin 7, Fin 5, Fin 3]\<rparr>]
     = [[Fin (1 / 2), Fin (5 / 9), Fin (4 / 9)],
        [Fin (4 / 9), Fin (1 / 2), Fin (5 / 9)],
        [Fin (5 / 9), Fin (4 / 9), Fin (1 / 2)]]
   \<and> calculate [\<lparr>faces = [Fin 2, Fin 2, Fin 4, Fin 4, Fin 9, Fin 9]\<rparr>,
                \<lparr>faces = [Fin 6, Fin 8, Fin 1, Fin 1, Fin 8, Fin 6]\<rparr>,
                \<lparr>faces = [Fin 7, Fin 5, Fin 3, Fin 7, Fin 5, Fin 3]\<rparr>] ! 0 ! 1
     = Fin (of_nat (length (filter (\<lambda>(a, b). js_gt a b)
                              (List.product [Fin 2, Fin 2, Fin 4, Fin 4, Fin 9, Fin 9] [Fin 6, Fin 8, Fin 1, Fin 1, Fin 8, Fin 6])))
            / of_nat (6 * 6))"
proof -
  let ?ds = "[\<lparr>faces = [Fin 2, Fin 2, Fin 4, Fin 4, Fin 9, Fin 9]\<rparr>,
                \<lparr>faces = [Fin 6, Fin 8, Fin 1, Fin 1, Fin 8, Fin 6]\<rparr>,
              \<lparr>faces = [Fin 7, Fin 5, Fin 3, Fin 7, Fin 5, Fin 3]\<rparr>]"
  have h: "\<forall>d \<in> set ?ds. faces d \<noteq> []" by simp
  have v: "calculate ?ds
     = [[Fin (1 / 2), Fin (5 / 9), Fin (4 / 9)],
        [Fin (4 / 9), Fin (1 / 2), Fin (5 / 9)],
        [Fin (5 / 9), Fin (4 / 9), Fin (1 / 2)]]"
    by code_simp
  from calculate_matrix [OF h] have "calculate ?ds ! 0 ! 1
     = Fin (of_nat (length (filter (\<lambda>(a, b). js_gt a b)
                              (List.product (faces (?ds ! 0)) (faces (?ds ! 1)))))
            / of_nat (length (faces (?ds ! 0)) * length (faces (?ds ! 1))))"
    by simp
  then have "calculate ?ds ! 0 ! 1
     = Fin (of_nat (length (filter (\<lambda>(a, b). js_gt a b)
                              (List.product [Fin 2, Fin 2, Fin 4, Fin 4, Fin 9, Fin 9] [Fin 6, Fin 8, Fin 1, Fin 1, Fin 8, Fin 6])))
            / of_nat (6 * 6))"
    by simp
  moreover have "[] \<notin> set (map faces ?ds)" by simp
  ultimately show ?thesis using v by blast
qed

section \<open>The dice parser\<close>

lemma mapThrows_all_ok:
  "\<forall>x \<in> set xs. \<forall>i. f i x = Inr (g x) \<Longrightarrow> mapThrows f i xs = Inr (map g xs)"
  by (induction xs arbitrary: i) auto

lemma mapThrows_some_error:
  "x \<in> set xs \<Longrightarrow> \<forall>i. \<exists>e. f i x = Inl e \<Longrightarrow> \<exists>e. mapThrows f i xs = Inl e"
proof (induction xs arbitrary: i)
  case Nil
  then show ?case by simp
next
  case (Cons a xs)
  show ?case
  proof (cases "f i a")
    case (Inl e)
    then show ?thesis by simp
  next
    case (Inr y)
    with Cons.prems have "x \<in> set xs" by (metis Inl_Inr_False set_ConsD)
    from Cons.IH [OF this Cons.prems(2), of "Suc i"] Inr show ?thesis by auto
  qed
qed

lemma mapThrows_Error:
  "mapThrows f i xs = Inl e \<Longrightarrow> \<exists>j x. f j x = Inl e"
  by (induction xs arbitrary: i) (auto split: sum.splits)

lemma parseDice_too_few:
  assumes "length argv < 3"
  shows "main rt argv
         = \<lparr>stderr = [''Error: You must provide at least three dice configurations. ''
                       @ ''Example: 2,2,4,4,9,9 6,8,1,1,8,6 7,5,3,7,5,3''],
            session = None\<rparr>"
  using assms by (simp add: main_def parseDice_def)

lemma parseDice_NaN_face:
  assumes "arg \<in> set argv" "list_ex isNaN (map Number_js (split_js CHR '','' arg))"
  shows "\<exists>m. parseDice argv = Inl (Error m) \<and> main rt argv = \<lparr>stderr = [''Error: '' @ m], session = None\<rparr>"
proof -
  have "\<exists>e. parseDice argv = Inl e"
  proof (cases "length argv < 3")
    case True
    then show ?thesis by (simp add: parseDice_def)
  next
    case False
    have "\<forall>i. \<exists>e. parseArg i arg = Inl e" using assms(2) by (simp add: parseArg_def)
    from mapThrows_some_error [where f = parseArg and i = 0, OF assms(1) this] False
    show ?thesis by (simp add: parseDice_def)
  qed
  then obtain e where e: "parseDice argv = Inl e" by blast
  have "\<exists>m. e = Error m"
  proof (cases "length argv < 3")
    case True
    with e show ?thesis by (auto simp: parseDice_def)
  next
    case False
    with e have "mapThrows parseArg 0 argv = Inl e" by (simp add: parseDice_def)
    from mapThrows_Error [OF this] show ?thesis
      by (auto simp: parseArg_def Let_def split: if_splits)
  qed
  with e show ?thesis by (auto simp: main_def)
qed

lemma parseDice_numbers:
  assumes "3 \<le> length argv"
    and "\<forall>arg \<in> set argv. \<not> list_ex isNaN (map Number_js (split_js CHR '','' arg))"
  shows "parseDice argv = Inr (map (\<lambda>arg. \<lparr>faces = map Number_js (split_js CHR '','' arg)\<rparr>) argv)"
    and "main rt argv
         = \<lparr>stderr = [],
            session = Some (play rt (newGame
              (map (\<lambda>arg. \<lparr>faces = map Number_js (split_js CHR '','' arg)\<rparr>) argv)))\<rparr>"
proof -
  have "\<forall>x \<in> set argv. \<forall>i. parseArg i x
          = Inr ((\<lambda>arg. \<lparr>faces = map Number_js (split_js CHR '','' arg)\<rparr>) x)"
    using assms(2) by (simp add: parseArg_def)
  from mapThrows_all_ok [where f = parseArg and i = 0, OF this] assms(1)
  show p: "parseDice argv = Inr (map (\<lambda>arg. \<lparr>faces = map Number_js (split_js CHR '','' arg)\<rparr>) argv)"
    by (simp add: parseDice_def)
  then show "main rt argv
         = \<lparr>stderr = [],
            session = Some (play rt (newGame
              (map (\<lambda>arg. \<lparr>faces = map Number_js (split_js CHR '','' arg)\<rparr>) argv)))\<rparr>"
    by (simp add: main_def)
qed

text \<open>
  Claim C8. Malformed startup input is to fail with an error and to start no game. The
  program does so for fewer than three arguments and for a face that is not a number
  (\<open>1,2,x\<close>), and its own message says that only integers are allowed. But its check
  is \<open>isNaN\<close> of \<open>Number(...)\<close>: the face \<open>1.5\<close> passes it, and an empty argument is
  read as the single face \<open>0\<close>. In both cases nothing is written to the standard error
  and a game is started.
\<close>

theorem parseDice_accepts_non_integer_and_empty:
  "parseDice [''1.5,2'', ''1'', ''2'']
     = Inr [\<lparr>faces = [Fin (3 / 2), Fin 2]\<rparr>, \<lparr>faces = [Fin 1]\<rparr>, \<lparr>faces = [Fin 2]\<rparr>]
   \<and> parseDice ['''', ''1'', ''2'']
     = Inr [\<lparr>faces = [Fin 0]\<rparr>, \<lparr>faces = [Fin 1]\<rparr>, \<lparr>faces = [Fin 2]\<rparr>]
   \<and> session (main rt [''1.5,2'', ''1'', ''2'']) \<noteq> None
   \<and> session (main rt ['''', ''1'', ''2'']) \<noteq> None
   \<and> stderr (main rt [''1.5,2'', ''1'', ''2'']) = []
   \<and> stderr (main rt ['''', ''1'', ''2'']) = []
   \<and> main rt [''1,2,x'', ''1'', ''2'']
     = \<lparr>stderr = [''Error: Invalid dice configuration at argument 1: Only integers are allowed.''],
        session = None\<rparr>
   \<and> main rt [''1,2,3'', ''4,5,6'']
     = \<lparr>stderr = [''Error: You must provide at least three dice configurations. ''
                   @ ''Example: 2,2,4,4,9,9 6,8,1,1,8,6 7,5,3,7,5,3''],
        session = None\<rparr>"
proof -
  have a: "parseDice [''1.5,2'', ''1'', ''2'']
     = Inr [\<lparr>faces = [Fin (3 / 2), Fin 2]\<rparr>, \<lparr>faces = [Fin 1]\<rparr>, \<lparr>faces = [Fin 2]\<rparr>]"
    by code_simp
  have b: "parseDice ['''', ''1'', ''2'']
     = Inr [\<lparr>faces = [Fin 0]\<rparr>, \<lparr>faces = [Fin 1]\<rparr>, \<lparr>faces = [Fin 2]\<rparr>]"
    by code_simp
  have c: "parseDice [''1,2,x'', ''1'', ''2'']
     = Inl (Error ''Invalid dice configuration at argument 1: Only integers are allowed.'')"
    by code_simp
  have d: "parseDice [''1,2,3'', ''4,5,6'']
     = Inl (Error (''You must provide at least three dice configurations. ''
                   @ ''Example: 2,2,4,4,9,9 6,8,1,1,8,6 7,5,3,7,5,3''))"
    by (simp add: parseDice_def)
  from a b c d show ?thesis by (simp add: main_def)
qed

section \<open>The game\<close>

lemma parseInt10_question: "parseInt10 ''?'' = None"
  by (simp add: parseInt10_def isWhiteSpace_def isDigit_def)

lemma chooseDice_log:
  "chooseDice (log_js s es) = s\<lparr>out := out s @ es @ [Ask DicePrompt], ctl := AwaitDice\<rparr>"
  by (simp add: chooseDice_def log_js_def)

lemma afterUserMod_invalid:
  assumes "u \<noteq> ''X''" "u \<noteq> ''x''"
    and "parseInt10 u = None
         \<or> (\<exists>k. parseInt10 u = Some k
                 \<and> (k < 0 \<or> (diceAt (dice s) ci = Inr d \<and> int (length (faces d)) \<le> k)))"
  shows "afterUserMod rt s ui ci ct ch u = chooseDice (log_js s [LogInvalidNumber])"
  using assms by (auto simp: afterUserMod_def Let_def)

lemma afterUserModThrow_invalid:
  assumes "u \<noteq> ''X''" "u \<noteq> ''x''"
    and "parseInt10 u = None
         \<or> (\<exists>k. parseInt10 u = Some k
                 \<and> (k < 0 \<or> (diceAt (dice s) ui = Inr d \<and> int (length (faces d)) \<le> k)))"
  shows "afterUserModThrow rt s ui croll ut u = chooseDice (log_js s [LogInvalidNumber])"
  using assms by (auto simp: afterUserModThrow_def Let_def)

lemma afterUserModThrow_valid:
  assumes "u \<noteq> ''X''" "u \<noteq> ''x''" "parseInt10 u = Some k" "0 \<le> k"
    and "diceAt (dice s) ui = Inr d" "k < int (length (faces d))"
    and "getSecretKey (generator s) = Inr key"
  shows "afterUserModThrow rt s ui croll ut u
         = s\<lparr>out := out s @ [LogMyNumber ut key], ctl := Rejected ReferenceError\<rparr>"
  using assms by (simp add: afterUserModThrow_def Let_def tag_o_def log_js_def)

lemma afterGuess_invalid:
  assumes "u \<noteq> ''X''" "u \<noteq> ''x''"
    and "parseInt10 u = None \<or> (\<exists>k. parseInt10 u = Some k \<and> (k < 0 \<or> 1 < k))"
  shows "afterGuess rt s v h u = determineFirstMove rt (log_js s [LogInvalid01])"
  using assms by (auto simp: afterGuess_def Let_def)

lemma determineFirstMove_commit:
  assumes "generateRandom rt (generator s) 2 (tick s) = Some (Inr (c, g1, t1))"
  shows "determineFirstMove rt (log_js s es)
         = s\<lparr>generator := g1, tick := t1,
              out := out s @ es @ [LogFirstMoveIntro, LogSelected 1 (hmac c), Ask GuessPrompt],
              ctl := AwaitGuess (randomNumber c) (hmac c)\<rparr>"
  using assms by (simp add: determineFirstMove_def log_js_def Let_def)

lemma determineFirstMove_out:
  "\<exists>es. out (determineFirstMove rt s) = out s @ es \<and> (\<forall>m. LogTable m \<notin> set es)"
  by (auto simp: determineFirstMove_def log_js_def Let_def split: option.splits sum.splits)

text \<open>
  Claim C3, as the program has it. At both questions for a number to add modulo the
  number of faces (the host's throw and the player's throw), an answer that is not a
  number, is negative, or is not below the number of faces makes the program print the
  invalid-input line and go back to the question for a die. The round is abandoned:
  the control point no longer holds the chosen dice nor the committed number and its
  digest. The dice set, the generator (with the last key), the tick and the earlier
  output are unchanged.
\<close>

theorem invalid_contribution_abandons_round:
  assumes "line \<noteq> ''X''" "line \<noteq> ''x''"
    and "parseInt10 line = None
         \<or> (\<exists>k. parseInt10 line = Some k \<and> (k < 0 \<or> int (length (faces d)) \<le> k))"
  shows "(ctl s = AwaitUserMod ui ci ct ch \<longrightarrow> diceAt (dice s) ci = Inr d \<longrightarrow>
            step rt s line = s\<lparr>out := out s @ [LogInvalidNumber, Ask DicePrompt], ctl := AwaitDice\<rparr>)
       \<and> (ctl s = AwaitUserModThrow ui ci ct ch croll ut uh \<longrightarrow> diceAt (dice s) ui = Inr d \<longrightarrow>
            step rt s line = s\<lparr>out := out s @ [LogInvalidNumber, Ask DicePrompt], ctl := AwaitDice\<rparr>)"
proof (intro conjI impI)
  assume c: "ctl s = AwaitUserMod ui ci ct ch" and d: "diceAt (dice s) ci = Inr d"
  from assms(3) d have "parseInt10 line = None
         \<or> (\<exists>k. parseInt10 line = Some k
                 \<and> (k < 0 \<or> (diceAt (dice s) ci = Inr d \<and> int (length (faces d)) \<le> k)))"
    by blast
  from afterUserMod_invalid [OF assms(1,2) this] c
  show "step rt s line = s\<lparr>out := out s @ [LogInvalidNumber, Ask DicePrompt], ctl := AwaitDice\<rparr>"
    by (simp add: step_def chooseDice_log)
next
  assume c: "ctl s = AwaitUserModThrow ui ci ct ch croll ut uh" and d: "diceAt (dice s) ui = Inr d"
  from assms(3) d have "parseInt10 line = None
         \<or> (\<exists>k. parseInt10 line = Some k
                 \<and> (k < 0 \<or> (diceAt (dice s) ui = Inr d \<and> int (length (faces d)) \<le> k)))"
    by blast
  from afterUserModThrow_invalid [OF assms(1,2) this] c
  show "step rt s line = s\<lparr>out := out s @ [LogInvalidNumber, Ask DicePrompt], ctl := AwaitDice\<rparr>"
    by (simp add: step_def chooseDice_log)
qed

text \<open>
  Claim C4, as the program has it. In the first-move protocol an answer that is not a
  number or is outside \<open>{0, 1}\<close> makes the program print the invalid-input line and
  run \<open>determineFirstMove\<close> again from its start. When the new call of
  \<open>generateRandom(2)\<close> returns, a new commitment has been made: the key is the one
  drawn by this call, the digest presented before the question is asked again is the
  HMAC of the new value under the new key, and the control point holds the new value
  and the new digest.
\<close>

theorem invalid_guess_commits_again:
  assumes "ctl s = AwaitGuess v h" "line \<noteq> ''X''" "line \<noteq> ''x''"
    and "parseInt10 line = None \<or> (\<exists>k. parseInt10 line = Some k \<and> (k < 0 \<or> 1 < k))"
  shows "step rt s line = determineFirstMove rt (log_js s [LogInvalid01])
       \<and> (generateRandom rt (generator s) 2 (tick s) = Some (Inr (c, g1, t1)) \<longrightarrow>
            step rt s line
              = s\<lparr>generator := g1, tick := t1,
                   out := out s @ [LogInvalid01, LogFirstMoveIntro, LogSelected 1 (hmac c),
                                   Ask GuessPrompt],
                   ctl := AwaitGuess (randomNumber c) (hmac c)\<rparr>
            \<and> secretKey g1 = Some (randomBytes rt (tick s) 32)
            \<and> hmac c = createHmac rt ''sha3-256'' (randomBytes rt (tick s) 32)
                          (decimalStringOf (randomNumber c)))"
proof -
  have a: "step rt s line = determineFirstMove rt (log_js s [LogInvalid01])"
    using assms(1) afterGuess_invalid [OF assms(2,3,4)] by (simp add: step_def)
  have b: "step rt s line
              = s\<lparr>generator := g1, tick := t1,
                   out := out s @ [LogInvalid01, LogFirstMoveIntro, LogSelected 1 (hmac c),
                                   Ask GuessPrompt],
                   ctl := AwaitGuess (randomNumber c) (hmac c)\<rparr>
            \<and> secretKey g1 = Some (randomBytes rt (tick s) 32)
            \<and> hmac c = createHmac rt ''sha3-256'' (randomBytes rt (tick s) 32)
                          (decimalStringOf (randomNumber c))"
    if r: "generateRandom rt (generator s) 2 (tick s) = Some (Inr (c, g1, t1))"
    using a determineFirstMove_commit [OF r, of "[LogInvalid01]"]
      generateRandom_Some(2,3) [OF r] by simp
  from a b show ?thesis by blast
qed

theorem invalid_contribution_abandons_round_witness:
  "ctl (run (scripted [0, 1, 2, 0, 4, 0, 0]) (play (scripted [0, 1, 2, 0, 4, 0, 0]) (newGame constantDice))
          [''0'', ''0''])
     = AwaitUserMod 0 2 4 (''sha3-256:'' @ toHex (replicate 32 3) @ '':4'')
   \<and> diceAt (dice (run (scripted [0, 1, 2, 0, 4, 0, 0])
                      (play (scripted [0, 1, 2, 0, 4, 0, 0]) (newGame constantDice)) [''0'', ''0''])) 2
     = Inr \<lparr>faces = replicate 6 (Fin 2)\<rparr>
   \<and> parseInt10 ''9'' = Some 9 \<and> int (length (faces \<lparr>faces = replicate 6 (Fin 2)\<rparr>)) \<le> 9
   \<and> ctl (step (scripted [0, 1, 2, 0, 4, 0, 0])
            (run (scripted [0, 1, 2, 0, 4, 0, 0])
               (play (scripted [0, 1, 2, 0, 4, 0, 0]) (newGame constantDice)) [''0'', ''0'']) ''9'')
     = AwaitDice
   \<and> ctl (run (scripted [0, 1, 2, 0, 4, 0, 0]) (play (scripted [0, 1, 2, 0, 4, 0, 0]) (newGame constantDice))
          [''0'', ''0'', ''3''])
     = AwaitUserModThrow 0 2 4 (''sha3-256:'' @ toHex (replicate 32 3) @ '':4'') (Fin 2) 0
         (''sha3-256:'' @ toHex (replicate 32 5) @ '':0'')
   \<and> diceAt (dice (run (scripted [0, 1, 2, 0, 4, 0, 0])
                      (play (scripted [0, 1, 2, 0, 4, 0, 0]) (newGame constantDice))
                      [''0'', ''0'', ''3''])) 0
     = Inr \<lparr>faces = replicate 6 (Fin 1)\<rparr>
   \<and> parseInt10 ''-1'' = Some (- 1)
   \<and> ctl (step (scripted [0, 1, 2, 0, 4, 0, 0])
            (run (scripted [0, 1, 2, 0, 4, 0, 0])
               (play (scripted [0, 1, 2, 0, 4, 0, 0]) (newGame constantDice)) [''0'', ''0'', ''3''])
            ''-1'')
     = AwaitDice"
proof -
  let ?rt = "scripted [0, 1, 2, 0, 4, 0, 0]"
  let ?h = "run ?rt (play ?rt (newGame constantDice)) [''0'', ''0'']"
  let ?p = "run ?rt (play ?rt (newGame constantDice)) [''0'', ''0'', ''3'']"
  have h1: "ctl ?h = AwaitUserMod 0 2 4 (''sha3-256:'' @ toHex (replicate 32 3) @ '':4'')"
    by code_simp
  have h2: "diceAt (dice ?h) 2 = Inr \<lparr>faces = replicate 6 (Fin 2)\<rparr>" by code_simp
  have h3: "parseInt10 ''9'' = Some 9" by code_simp
  have h4: "parseInt10 ''9'' = None
         \<or> (\<exists>k. parseInt10 ''9'' = Some k
                 \<and> (k < 0 \<or> int (length (faces \<lparr>faces = replicate 6 (Fin 2)\<rparr>)) \<le> k))"
    using h3 by simp
  have p1: "ctl ?p = AwaitUserModThrow 0 2 4 (''sha3-256:'' @ toHex (replicate 32 3) @ '':4'')
                       (Fin 2) 0 (''sha3-256:'' @ toHex (replicate 32 5) @ '':0'')"
    by code_simp
  have p2: "diceAt (dice ?p) 0 = Inr \<lparr>faces = replicate 6 (Fin 1)\<rparr>" by code_simp
  have p3: "parseInt10 ''-1'' = Some (- 1)" by code_simp
  have p4: "parseInt10 ''-1'' = None
         \<or> (\<exists>k. parseInt10 ''-1'' = Some k
                 \<and> (k < 0 \<or> int (length (faces \<lparr>faces = replicate 6 (Fin 1)\<rparr>)) \<le> k))"
    using p3 by simp
  have n: "''9'' \<noteq> ''X''" "''9'' \<noteq> ''x''" "''-1'' \<noteq> ''X''" "''-1'' \<noteq> ''x''" by simp_all
  from invalid_contribution_abandons_round
         [where s = ?h and rt = ?rt and ui = 0 and ci = 2 and ct = 4
            and ch = "''sha3-256:'' @ toHex (replicate 32 3) @ '':4''"
            and croll = "Fin 0" and ut = 0 and uh = "[]", OF n(1,2) h4] h1 h2
  have a: "ctl (step ?rt ?h ''9'') = AwaitDice" by simp
  from invalid_contribution_abandons_round
         [where s = ?p and rt = ?rt and ui = 0 and ci = 2 and ct = 4
            and ch = "''sha3-256:'' @ toHex (replicate 32 3) @ '':4''"
            and croll = "Fin 2" and ut = 0
            and uh = "''sha3-256:'' @ toHex (replicate 32 5) @ '':0''", OF n(3,4) p4] p1 p2
  have b: "ctl (step ?rt ?p ''-1'') = AwaitDice" by simp
  from h1 h2 h3 p1 p2 p3 a b show ?thesis by simp
qed

text \<open>
  The same question is not asked again. With the dice of the end-to-end scenario, the
  answer \<open>9\<close> to the first modular question and the answer \<open>abc\<close> to the second one
  both lead to the question for a die; the commitment of the abandoned round
  (value \<open>4\<close>) is gone, and the next round commits anew.
\<close>

theorem invalid_contribution_reprompt_counterexample:
  "ctl (run (scripted [0, 1, 2, 0, 4, 0, 0]) (play (scripted [0, 1, 2, 0, 4, 0, 0]) (newGame constantDice))
          [''0'', ''0''])
     = AwaitUserMod 0 2 4 (''sha3-256:'' @ toHex (replicate 32 3) @ '':4'')
   \<and> ctl (run (scripted [0, 1, 2, 0, 4, 0, 0]) (play (scripted [0, 1, 2, 0, 4, 0, 0]) (newGame constantDice))
          [''0'', ''0'', ''9''])
     = AwaitDice
   \<and> ctl (run (scripted [0, 1, 2, 0, 4, 0, 0]) (play (scripted [0, 1, 2, 0, 4, 0, 0]) (newGame constantDice))
          [''0'', ''0'', ''9'', ''0''])
     = AwaitUserMod 0 0 0 (''sha3-256:'' @ toHex (replicate 32 6) @ '':0'')
   \<and> ctl (run (scripted [0, 1, 2, 0, 4, 0, 0]) (play (scripted [0, 1, 2, 0, 4, 0, 0]) (newGame constantDice))
          [''0'', ''0'', ''3''])
     = AwaitUserModThrow 0 2 4 (''sha3-256:'' @ toHex (replicate 32 3) @ '':4'') (Fin 2) 0
         (''sha3-256:'' @ toHex (replicate 32 5) @ '':0'')
   \<and> ctl (run (scripted [0, 1, 2, 0, 4, 0, 0]) (play (scripted [0, 1, 2, 0, 4, 0, 0]) (newGame constantDice))
          [''0'', ''0'', ''3'', ''abc''])
     = AwaitDice"
  by code_simp

text \<open>
  The commitment is not the same after an invalid guess. Here the first commitment is
  to \<open>0\<close> under the key of call \<open>0\<close>; after the answer \<open>5\<close> the program has
  committed to \<open>1\<close> under the key of call \<open>2\<close>, and has presented a second digest.
\<close>

theorem invalid_guess_same_commitment_counterexample:
  "ctl (play (scripted [0, 0, 0, 1]) (newGame constantDice))
     = AwaitGuess 0 (''sha3-256:'' @ toHex (replicate 32 0) @ '':0'')
   \<and> generator (play (scripted [0, 0, 0, 1]) (newGame constantDice))
     = \<lparr>secretKey = Some (replicate 32 0)\<rparr>
   \<and> ctl (step (scripted [0, 0, 0, 1]) (play (scripted [0, 0, 0, 1]) (newGame constantDice)) ''5'')
     = AwaitGuess 1 (''sha3-256:'' @ toHex (replicate 32 2) @ '':1'')
   \<and> generator (step (scripted [0, 0, 0, 1]) (play (scripted [0, 0, 0, 1]) (newGame constantDice)) ''5'')
     = \<lparr>secretKey = Some (replicate 32 2)\<rparr>
   \<and> out (step (scripted [0, 0, 0, 1]) (play (scripted [0, 0, 0, 1]) (newGame constantDice)) ''5'')
     = [LogWelcome, LogTypeHelp, LogFirstMoveIntro,
        LogSelected 1 (''sha3-256:'' @ toHex (replicate 32 0) @ '':0''), Ask GuessPrompt,
        LogInvalid01, LogFirstMoveIntro,
        LogSelected 1 (''sha3-256:'' @ toHex (replicate 32 2) @ '':1''), Ask GuessPrompt]"
  by code_simp

theorem invalid_guess_commits_again_witness:
  "ctl (play (scripted [0, 0, 0, 1]) (newGame constantDice))
     = AwaitGuess 0 (''sha3-256:'' @ toHex (replicate 32 0) @ '':0'')
   \<and> parseInt10 ''5'' = Some 5
   \<and> generateRandom (scripted [0, 0, 0, 1])
        (generator (play (scripted [0, 0, 0, 1]) (newGame constantDice))) 2
        (tick (play (scripted [0, 0, 0, 1]) (newGame constantDice)))
     = Some (Inr (\<lparr>randomNumber = 1, hmac = ''sha3-256:'' @ toHex (replicate 32 2) @ '':1''\<rparr>,
                 \<lparr>secretKey = Some (replicate 32 2)\<rparr>, 4))
   \<and> ctl (step (scripted [0, 0, 0, 1]) (play (scripted [0, 0, 0, 1]) (newGame constantDice)) ''5'')
     = AwaitGuess 1 (''sha3-256:'' @ toHex (replicate 32 2) @ '':1'')"
proof -
  let ?rt = "scripted [0, 0, 0, 1]"
  let ?s = "play ?rt (newGame constantDice)"
  have h1: "ctl ?s = AwaitGuess 0 (''sha3-256:'' @ toHex (replicate 32 0) @ '':0'')" by code_simp
  have h2: "parseInt10 ''5'' = Some 5" by code_simp
  have h3: "parseInt10 ''5'' = None \<or> (\<exists>k. parseInt10 ''5'' = Some k \<and> (k < 0 \<or> 1 < k))"
    using h2 by simp
  have h4: "generateRandom ?rt (generator ?s) 2 (tick ?s)
     = Some (Inr (\<lparr>randomNumber = 1, hmac = ''sha3-256:'' @ toHex (replicate 32 2) @ '':1''\<rparr>,
                 \<lparr>secretKey = Some (replicate 32 2)\<rparr>, 4))"
    by code_simp
  have n: "''5'' \<noteq> ''X''" "''5'' \<noteq> ''x''" by simp_all
  note T = invalid_guess_commits_again [OF h1 n h3, where rt = ?rt
         and c = "\<lparr>randomNumber = 1, hmac = ''sha3-256:'' @ toHex (replicate 32 2) @ '':1''\<rparr>"
         and ?g1.0 = "\<lparr>secretKey = Some (replicate 32 2)\<rparr>" and ?t1.0 = 4]
  note e = T [THEN conjunct2, THEN mp, OF h4, THEN conjunct1]
  have "ctl (step ?rt ?s ''5'') = AwaitGuess 1 (''sha3-256:'' @ toHex (replicate 32 2) @ '':1'')"
    by (subst e) simp
  with h1 h2 h4 show ?thesis by simp
qed

lemma step_question_guess:
  "ctl s = AwaitGuess v h \<Longrightarrow> step rt s ''?'' = determineFirstMove rt (log_js s [LogInvalid01])"
  by (simp add: step_def afterGuess_invalid parseInt10_question)

lemma step_question_table:
  assumes "ctl s = AwaitGuess v h"
  shows "LogTable m \<in> set (out (step rt s ''?'')) \<longrightarrow> LogTable m \<in> set (out s)"
proof -
  from determineFirstMove_out [of rt "log_js s [LogInvalid01]"]
  obtain es where "out (determineFirstMove rt (log_js s [LogInvalid01])) = out (log_js s [LogInvalid01]) @ es"
    and "\<forall>m. LogTable m \<notin> set es" by blast
  then show ?thesis using step_question_guess [OF assms] by (auto simp: log_js_def)
qed

text \<open>
  Claim C10. The question for the guess and the question for a number to add both list
  \<open>? - help\<close>. Yet \<open>parseInt\<close> of \<open>?\<close> is NaN, and no branch tests for \<open>?\<close> there. At
  the question for the guess, \<open>?\<close> takes the path of an invalid guess, as \<open>abc\<close>
  does: \<open>determineFirstMove\<close> starts again, and no table is printed. At either
  question for a number to add, \<open>?\<close> makes the program print the invalid-input line,
  abandon the round and ask for a die. Only at the question for a die does \<open>?\<close> print
  the probability table, after which the same question is asked again.
\<close>

theorem question_mark_is_help_only_at_dice_prompt:
  "(\<exists>a b. guessQuery = a @ ''? - help'' @ b)
   \<and> (\<exists>a b. modQuery n = a @ ''? - help'' @ b)
   \<and> parseInt10 ''?'' = None
   \<and> (ctl s = AwaitGuess v h \<longrightarrow>
        step rt s ''?'' = determineFirstMove rt (log_js s [LogInvalid01])
        \<and> step rt s ''?'' = step rt s ''abc''
        \<and> (\<forall>m. LogTable m \<in> set (out (step rt s ''?'')) \<longrightarrow> LogTable m \<in> set (out s)))
   \<and> (ctl s = AwaitUserMod ui ci ct ch \<longrightarrow>
        step rt s ''?'' = s\<lparr>out := out s @ [LogInvalidNumber, Ask DicePrompt], ctl := AwaitDice\<rparr>)
   \<and> (ctl s = AwaitUserModThrow ui ci ct ch croll ut uh \<longrightarrow>
        step rt s ''?'' = s\<lparr>out := out s @ [LogInvalidNumber, Ask DicePrompt], ctl := AwaitDice\<rparr>)
   \<and> (ctl s = AwaitDice \<longrightarrow>
        step rt s ''?''
          = s\<lparr>out := out s @ [LogTable (calculate (dice s)), Ask DicePrompt], ctl := AwaitDice\<rparr>)"
proof -
  have q1: "guessQuery = ''Try to guess my selection.\<newline>0 - 0\<newline>1 - 1\<newline>X - exit\<newline>'' @ ''? - help'' @ ''\<newline>Your selection: ''"
    by (simp add: guessQuery_def)
  have q2: "modQuery n
      = (''Add your number modulo '' @ decimalStringOf n @ '':\<newline>''
         @ join_js ''\<newline>'' (map (\<lambda>i. decimalStringOf i @ '' - '' @ decimalStringOf i) [0..<n])
         @ ''\<newline>X - exit\<newline>'') @ ''? - help'' @ ''\<newline>Your selection: ''"
    by (simp add: modQuery_def)
  have abc: "parseInt10 ''abc'' = None" by (simp add: parseInt10_def isWhiteSpace_def isDigit_def)
  have g: "ctl s = AwaitGuess v h \<longrightarrow>
        step rt s ''?'' = determineFirstMove rt (log_js s [LogInvalid01])
        \<and> step rt s ''?'' = step rt s ''abc''
        \<and> (\<forall>m. LogTable m \<in> set (out (step rt s ''?'')) \<longrightarrow> LogTable m \<in> set (out s))"
    using step_question_guess [of s v h rt] step_question_table [of s v h _ rt]
    by (auto simp: step_def afterGuess_invalid abc)
  have m1: "ctl s = AwaitUserMod ui ci ct ch \<longrightarrow>
        step rt s ''?'' = s\<lparr>out := out s @ [LogInvalidNumber, Ask DicePrompt], ctl := AwaitDice\<rparr>"
    by (simp add: step_def afterUserMod_invalid parseInt10_question chooseDice_log)
  have m2: "ctl s = AwaitUserModThrow ui ci ct ch croll ut uh \<longrightarrow>
        step rt s ''?'' = s\<lparr>out := out s @ [LogInvalidNumber, Ask DicePrompt], ctl := AwaitDice\<rparr>"
    by (simp add: step_def afterUserModThrow_invalid parseInt10_question chooseDice_log)
  have d: "ctl s = AwaitDice \<longrightarrow>
        step rt s ''?''
          = s\<lparr>out := out s @ [LogTable (calculate (dice s)), Ask DicePrompt], ctl := AwaitDice\<rparr>"
    by (simp add: step_def afterDice_def chooseDice_log)
  from q1 q2 parseInt10_question g m1 m2 d show ?thesis by blast
qed

theorem question_mark_is_help_only_at_dice_prompt_witness:
  "ctl (play (scripted [0, 1, 2, 0, 4, 0, 0]) (newGame constantDice))
     = AwaitGuess 1 (''sha3-256:'' @ toHex (replicate 32 0) @ '':1'')
   \<and> ctl (step (scripted [0, 1, 2, 0, 4, 0, 0])
            (play (scripted [0, 1, 2, 0, 4, 0, 0]) (newGame constantDice)) ''?'')
     = AwaitGuess 0 (''sha3-256:'' @ toHex (replicate 32 2) @ '':0'')
   \<and> ctl (run (scripted [0, 1, 2, 0, 4, 0, 0]) (play (scripted [0, 1, 2, 0, 4, 0, 0]) (newGame constantDice))
          [''0'']) = AwaitDice
   \<and> out (step (scripted [0, 1, 2, 0, 4, 0, 0])
            (run (scripted [0, 1, 2, 0, 4, 0, 0])
               (play (scripted [0, 1, 2, 0, 4, 0, 0]) (newGame constantDice)) [''0'']) ''?'')
     = out (run (scripted [0, 1, 2, 0, 4, 0, 0])
              (play (scripted [0, 1, 2, 0, 4, 0, 0]) (newGame constantDice)) [''0''])
       @ [LogTable [[Fin (1 / 2), Fin 1, Fin 0], [Fin 0, Fin (1 / 2), Fin 0],
                    [Fin 1, Fin 1, Fin (1 / 2)]], Ask DicePrompt]
   \<and> ctl (run (scripted [0, 1, 2, 0, 4, 0, 0]) (play (scripted [0, 1, 2, 0, 4, 0, 0]) (newGame constantDice))
          [''0'', ''0''])
     = AwaitUserMod 0 2 4 (''sha3-256:'' @ toHex (replicate 32 3) @ '':4'')
   \<and> ctl (step (scripted [0, 1, 2, 0, 4, 0, 0])
            (run (scripted [0, 1, 2, 0, 4, 0, 0])
               (play (scripted [0, 1, 2, 0, 4, 0, 0]) (newGame constantDice)) [''0'', ''0'']) ''?'')
     = AwaitDice
   \<and> ctl (run (scripted [0, 1, 2, 0, 4, 0, 0]) (play (scripted [0, 1, 2, 0, 4, 0, 0]) (newGame constantDice))
          [''0'', ''0'', ''3''])
     = AwaitUserModThrow 0 2 4 (''sha3-256:'' @ toHex (replicate 32 3) @ '':4'') (Fin 2) 0
         (''sha3-256:'' @ toHex (replicate 32 5) @ '':0'')
   \<and> ctl (step (scripted [0, 1, 2, 0, 4, 0, 0])
            (run (scripted [0, 1, 2, 0, 4, 0, 0])
               (play (scripted [0, 1, 2, 0, 4, 0, 0]) (newGame constantDice)) [''0'', ''0'', ''3''])
            ''?'')
     = AwaitDice"
proof -
  let ?rt = "scripted [0, 1, 2, 0, 4, 0, 0]"
  let ?g = "play ?rt (newGame constantDice)"
  let ?d = "run ?rt ?g [''0'']"
  let ?h = "run ?rt ?g [''0'', ''0'']"
  let ?p = "run ?rt ?g [''0'', ''0'', ''3'']"
  have g1: "ctl ?g = AwaitGuess 1 (''sha3-256:'' @ toHex (replicate 32 0) @ '':1'')" by code_simp
  have d1: "ctl ?d = AwaitDice" by code_simp
  have h1: "ctl ?h = AwaitUserMod 0 2 4 (''sha3-256:'' @ toHex (replicate 32 3) @ '':4'')"
    by code_simp
  have p1: "ctl ?p = AwaitUserModThrow 0 2 4 (''sha3-256:'' @ toHex (replicate 32 3) @ '':4'')
                       (Fin 2) 0 (''sha3-256:'' @ toHex (replicate 32 5) @ '':0'')"
    by code_simp
  have gv: "ctl (determineFirstMove ?rt (log_js ?g [LogInvalid01]))
            = AwaitGuess 0 (''sha3-256:'' @ toHex (replicate 32 2) @ '':0'')"
    by code_simp
  have tv: "calculate (dice ?d)
            = [[Fin (1 / 2), Fin 1, Fin 0], [Fin 0, Fin (1 / 2), Fin 0], [Fin 1, Fin 1, Fin (1 / 2)]]"
    by code_simp
  note G = question_mark_is_help_only_at_dice_prompt
             [where s = ?g and rt = ?rt, THEN conjunct2, THEN conjunct2, THEN conjunct2,
              THEN conjunct1, THEN mp, OF g1, THEN conjunct1]
  note D = question_mark_is_help_only_at_dice_prompt
             [where s = ?d and rt = ?rt, THEN conjunct2, THEN conjunct2, THEN conjunct2,
              THEN conjunct2, THEN conjunct2, THEN conjunct2, THEN mp, OF d1]
  note H = question_mark_is_help_only_at_dice_prompt
             [where s = ?h and rt = ?rt, THEN conjunct2, THEN conjunct2, THEN conjunct2,
              THEN conjunct2, THEN conjunct1, THEN mp, OF h1]
  note P = question_mark_is_help_only_at_dice_prompt
             [where s = ?p and rt = ?rt, THEN conjunct2, THEN conjunct2, THEN conjunct2,
              THEN conjunct2, THEN conjunct2, THEN conjunct1, THEN mp, OF p1]
  have a: "ctl (step ?rt ?g ''?'') = AwaitGuess 0 (''sha3-256:'' @ toHex (replicate 32 2) @ '':0'')"
    by (subst G) (rule gv)
  have b: "out (step ?rt ?d ''?'')
           = out ?d @ [LogTable [[Fin (1 / 2), Fin 1, Fin 0], [Fin 0, Fin (1 / 2), Fin 0],
                                 [Fin 1, Fin 1, Fin (1 / 2)]], Ask DicePrompt]"
    by (subst D, subst tv) simp
  have c: "ctl (step ?rt ?h ''?'') = AwaitDice" by (subst H) simp
  have d: "ctl (step ?rt ?p ''?'') = AwaitDice" by (subst P) simp
  from g1 a d1 b h1 c p1 d show ?thesis by blast
qed

lemma step_valid_player_throw:
  assumes "ctl s = AwaitUserModThrow ui ci ct ch croll ut uh"
    and "u \<noteq> ''X''" "u \<noteq> ''x''" "parseInt10 u = Some k" "0 \<le> k"
    and "diceAt (dice s) ui = Inr d" "k < int (length (faces d))"
    and "getSecretKey (generator s) = Inr key"
  shows "step rt s u = s\<lparr>out := out s @ [LogMyNumber ut key], ctl := Rejected ReferenceError\<rparr>"
  using assms(1) afterUserModThrow_valid [OF assms(2-8)] by (simp add: step_def)

lemma run_Rejected: "ctl s = Rejected e \<Longrightarrow> run rt s ls = s"
  by (induction ls) (simp_all add: run_def step_def)

text \<open>
  Claim C1. A round in which every answer is valid does not reach the comparison.
  After the player's contribution the program prints its number and the key, and then
  evaluates \<open>o\<close>, the tag of the template literal of the next line, which is declared
  nowhere: a ReferenceError leaves \<open>play\<close>. With the dice \<open>1,1,1,1,1,1\<close>, \<open>0,0,0,0,0,0\<close>
  and \<open>2,2,2,2,2,2\<close>, the player on die 1 and the host on die 3, the last line printed
  is the host's number for the player's throw, no outcome is printed, and a further
  line of input is not read; the same happens with the player on die 3 and the host on
  die 1. The comparison itself, were it reached, would give the round to die 3.
\<close>

theorem valid_round_ends_in_ReferenceError:
  "ctl (run (scripted [0, 1, 2, 0, 4, 0, 0]) (play (scripted [0, 1, 2, 0, 4, 0, 0]) (newGame constantDice))
          [''0'', ''0'', ''3''])
     = AwaitUserModThrow 0 2 4 (''sha3-256:'' @ toHex (replicate 32 3) @ '':4'') (Fin 2) 0
         (''sha3-256:'' @ toHex (replicate 32 5) @ '':0'')
   \<and> ctl (run (scripted [0, 1, 2, 0, 4, 0, 0]) (play (scripted [0, 1, 2, 0, 4, 0, 0]) (newGame constantDice))
          [''0'', ''0'', ''3'', ''4''])
     = Rejected ReferenceError
   \<and> out (run (scripted [0, 1, 2, 0, 4, 0, 0]) (play (scripted [0, 1, 2, 0, 4, 0, 0]) (newGame constantDice))
          [''0'', ''0'', ''3'', ''4''])
     = out (run (scripted [0, 1, 2, 0, 4, 0, 0]) (play (scripted [0, 1, 2, 0, 4, 0, 0]) (newGame constantDice))
          [''0'', ''0'', ''3''])
       @ [LogMyNumber 0 (toHex (replicate 32 5))]
   \<and> filter isOutcome
        (out (run (scripted [0, 1, 2, 0, 4, 0, 0])
                (play (scripted [0, 1, 2, 0, 4, 0, 0]) (newGame constantDice))
                [''0'', ''0'', ''3'', ''4''])) = []
   \<and> ctl (run (scripted [0, 1, 2, 0, 4, 0, 0]) (play (scripted [0, 1, 2, 0, 4, 0, 0]) (newGame constantDice))
          [''0'', ''0'', ''3'', ''4'', ''0''])
     = Rejected ReferenceError
   \<and> ctl (run (scripted [0, 1, 0, 0, 4, 0, 0]) (play (scripted [0, 1, 0, 0, 4, 0, 0]) (newGame constantDice))
          [''0'', ''2'', ''3''])
     = AwaitUserModThrow 2 0 4 (''sha3-256:'' @ toHex (replicate 32 3) @ '':4'') (Fin 1) 0
         (''sha3-256:'' @ toHex (replicate 32 5) @ '':0'')
   \<and> ctl (run (scripted [0, 1, 0, 0, 4, 0, 0]) (play (scripted [0, 1, 0, 0, 4, 0, 0]) (newGame constantDice))
          [''0'', ''2'', ''3'', ''4''])
     = Rejected ReferenceError
   \<and> compareRolls (Fin 1) (Fin 2) = LogIWin (Fin 2) (Fin 1)
   \<and> compareRolls (Fin 2) (Fin 1) = LogYouWin (Fin 2) (Fin 1)"
  by code_simp

end
